theory Spec2Isabelle
  imports Main "HOL-Library.Sublist" "HOL-Library.Multiset"
begin

section \<open>Python values used by the extraction pipeline\<close>

text \<open>
  Strings are lists of characters. Character classes follow Python's \<open>str\<close> methods on
  the ASCII range; a character outside ASCII is treated as uncased and as not being white
  space. Exceptions are values of \<open>py_error\<close>, and a function that can raise returns
  \<open>py_error + 'a\<close>.
\<close>

datatype py_error = KeyError | IndexError | ValueError | TypeError | IOError | RuntimeError

definition is_space :: "char \<Rightarrow> bool" where
  "is_space c =
     (c \<in> set [CHR 0x09, CHR 0x0A, CHR 0x0B, CHR 0x0C, CHR 0x0D,
               CHR 0x1C, CHR 0x1D, CHR 0x1E, CHR 0x1F, CHR 0x20])"

definition DIGITS :: string where
  "DIGITS = ''0123456789''"

definition UPPER_LETTERS :: string where
  "UPPER_LETTERS = ''ABCDEFGHIJKLMNOPQRSTUVWXYZ''"

definition LOWER_LETTERS :: string where
  "LOWER_LETTERS = ''abcdefghijklmnopqrstuvwxyz''"

definition is_digit :: "char \<Rightarrow> bool" where
  "is_digit c = (c \<in> set DIGITS)"

definition digit_val :: "char \<Rightarrow> nat" where
  "digit_val c = length (takeWhile (\<lambda>d. d \<noteq> c) DIGITS)"

definition is_upper_char :: "char \<Rightarrow> bool" where
  "is_upper_char c = (c \<in> set UPPER_LETTERS)"

definition is_lower_char :: "char \<Rightarrow> bool" where
  "is_lower_char c = (c \<in> set LOWER_LETTERS)"

definition lower_char :: "char \<Rightarrow> char" where
  "lower_char c = (case map_of (zip UPPER_LETTERS LOWER_LETTERS) c of Some l \<Rightarrow> l | None \<Rightarrow> c)"

definition upper_char :: "char \<Rightarrow> char" where
  "upper_char c = (case map_of (zip LOWER_LETTERS UPPER_LETTERS) c of Some u \<Rightarrow> u | None \<Rightarrow> c)"

text \<open>\<open>s.lower()\<close>, \<open>s.upper()\<close>, \<open>s.isupper()\<close> and \<open>s.strip()\<close>.\<close>

definition lower :: "string \<Rightarrow> string" where
  "lower s = map lower_char s"

definition upper :: "string \<Rightarrow> string" where
  "upper s = map upper_char s"

definition isupper :: "string \<Rightarrow> bool" where
  "isupper s = (list_ex is_upper_char s \<and> \<not> list_ex is_lower_char s)"

definition strip :: "string \<Rightarrow> string" where
  "strip s = rev (dropWhile is_space (rev (dropWhile is_space s)))"

text \<open>\<open>s.split()\<close>: the maximal runs of characters that are not white space.\<close>

fun split_ws :: "string \<Rightarrow> string \<Rightarrow> string list" where
  "split_ws w [] = (if w = [] then [] else [w])"
| "split_ws w (c # cs) =
     (if is_space c then (if w = [] then split_ws [] cs else w # split_ws [] cs)
      else split_ws (w @ [c]) cs)"

definition py_split :: "string \<Rightarrow> string list" where
  "py_split s = split_ws [] s"

text \<open>\<open>s.find(sub)\<close> is the first index at which \<open>sub\<close> occurs, or \<open>-1\<close>; \<open>sub in s\<close>
  is the substring test.\<close>

fun find_at :: "string \<Rightarrow> string \<Rightarrow> nat \<Rightarrow> int" where
  "find_at sub [] k = (if sub = [] then int k else - 1)"
| "find_at sub (c # cs) k = (if prefix sub (c # cs) then int k else find_at sub cs (Suc k))"

definition py_find :: "string \<Rightarrow> string \<Rightarrow> int" where
  "py_find s sub = find_at sub s 0"

definition py_in :: "string \<Rightarrow> string \<Rightarrow> bool" where
  "py_in sub s = (0 \<le> py_find s sub)"

text \<open>\<open>s[a:b]\<close> for offsets that are not negative.\<close>

definition slice :: "string \<Rightarrow> nat \<Rightarrow> nat \<Rightarrow> string" where
  "slice s a b = take (b - a) (drop a s)"

text \<open>\<open>sep.join(xs)\<close>.\<close>

fun py_join :: "string \<Rightarrow> string list \<Rightarrow> string" where
  "py_join sep [] = []"
| "py_join sep [x] = x"
| "py_join sep (x # y # ys) = x @ sep @ py_join sep (y # ys)"

text \<open>\<open>[s[i:i+size] for i in range(0, min(len(s), limit), size)]\<close>; the chunking without
  a limit is the same list with \<open>limit = len(s)\<close>.\<close>

definition py_range_step :: "nat \<Rightarrow> nat \<Rightarrow> nat list" where
  "py_range_step stop step = map (\<lambda>k. k * step) [0 ..< (stop + step - 1) div step]"

definition chunks :: "nat \<Rightarrow> nat \<Rightarrow> string \<Rightarrow> string list" where
  "chunks chunk_size limit s =
     map (\<lambda>i. take chunk_size (drop i s)) (py_range_step (min (length s) limit) chunk_size)"

text \<open>
  \<open>int(s)\<close> for a string: surrounding white space is ignored, one sign is allowed, and
  the digits may be grouped by single underscores. Anything else raises \<open>ValueError\<close>,
  which is \<open>None\<close> here.
\<close>

fun int_digits :: "nat \<Rightarrow> bool \<Rightarrow> string \<Rightarrow> nat option" where
  "int_digits acc prev [] = (if prev then Some acc else None)"
| "int_digits acc prev (c # cs) =
     (if is_digit c then int_digits (10 * acc + digit_val c) True cs
      else if c = CHR ''_'' \<and> prev \<and> cs \<noteq> [] \<and> is_digit (hd cs) then int_digits acc False cs
      else None)"

definition py_int :: "string \<Rightarrow> int option" where
  "py_int s =
     (case strip s of
        [] \<Rightarrow> None
      | c # cs \<Rightarrow>
          if c = CHR ''-'' then map_option (\<lambda>n. - int n) (int_digits 0 False cs)
          else if c = CHR ''+'' then map_option int (int_digits 0 False cs)
          else map_option int (int_digits 0 False (c # cs)))"

text \<open>\<open>str(n)\<close> for a natural number.\<close>

fun str_nat :: "nat \<Rightarrow> string" where
  "str_nat n = (if n < 10 then [DIGITS ! n] else str_nat (n div 10) @ [DIGITS ! (n mod 10)])"

section \<open>The document and its annotations\<close>

text \<open>
  A page is a dictionary that may lack its \<open>text\<close> key, a document one that may lack its
  \<open>pages\<close> key. The annotation models are external: \<open>contractbert_ner\<close> returns
  entities with an \<open>entity_group\<close> and a \<open>word\<close> (the empty string when the key is
  missing), and the \<open>nlp\<close> pipeline gives, for a text, its sentences, its entities (label,
  text, token index of the first token) and its noun chunks.
\<close>

record page =
  page_text :: "string option"

record document =
  pages :: "page list option"

record ner_entity =
  entity_group :: string
  word :: string

record span =
  label :: string
  ent_text :: string
  ent_start :: nat

record nlp_env =
  contractbert_ner :: "string \<Rightarrow> ner_entity list"
  nlp_sents :: "string \<Rightarrow> string list"
  nlp_ents :: "string \<Rightarrow> span list"
  nlp_noun_chunks :: "string \<Rightarrow> string list"

text \<open>
  A regular-expression match as the code reads it: the first group, the second group when
  the pattern has one, and the offsets of the match. The regular expressions themselves
  are not interpreted: the result of running one on a text is an input of the model.
\<close>

record rmatch =
  group1 :: string
  group2 :: "string option"
  mstart :: nat
  mend :: nat

section \<open>Articles (extract/articles.py and extract/txt\_parser.py)\<close>

record section_rec =
  sec_number :: string
  sec_title :: string
  sec_content :: string

record article =
  number :: string
  numeric_id :: string
  title :: string
  content :: string
  sections :: "section_rec list"

definition ROMAN_TO_NUMBER :: "(string \<times> string) list" where
  "ROMAN_TO_NUMBER =
     [(''I'', ''1''), (''II'', ''2''), (''III'', ''3''), (''IV'', ''4''), (''V'', ''5''),
      (''VI'', ''6''), (''VII'', ''7''), (''VIII'', ''8''), (''IX'', ''9''), (''X'', ''10''),
      (''XI'', ''11''), (''XII'', ''12''), (''XIII'', ''13''), (''XIV'', ''14''), (''XV'', ''15''),
      (''XVI'', ''16''), (''XVII'', ''17''), (''XVIII'', ''18''), (''XIX'', ''19''), (''XX'', ''20'')]"

text \<open>\<open>ROMAN_TO_NUMBER.get(article_num.upper(), article_num)\<close>.\<close>

definition to_numeric_id :: "string \<Rightarrow> string" where
  "to_numeric_id article_num =
     (case map_of ROMAN_TO_NUMBER (upper article_num) of Some n \<Rightarrow> n | None \<Rightarrow> article_num)"

text \<open>The article built from a match of one of the \<open>ARTICLE_PATTERNS\<close>.\<close>

definition match_title :: "rmatch \<Rightarrow> string" where
  "match_title m = (case group2 m of Some t \<Rightarrow> strip t | None \<Rightarrow> ''UNTITLED'')"

definition new_article :: "rmatch \<Rightarrow> article" where
  "new_article m =
     \<lparr>number = group1 m, numeric_id = to_numeric_id (group1 m), title = match_title m,
      content = [], sections = []\<rparr>"

text \<open>
  \<open>articles.sort(key=lambda x: int(x["numeric_id"]))\<close> inside \<open>try\<close>: the keys of all
  elements are computed first; if one of them raises, the list is left as it was, and
  otherwise the list is sorted by key, elements with equal keys keeping their order.
\<close>

definition sort_articles :: "article list \<Rightarrow> article list" where
  "sort_articles arts =
     (if arts = [] then arts
      else case those (map (\<lambda>a. py_int (numeric_id a)) arts) of
             None \<Rightarrow> arts
           | Some keys \<Rightarrow> map snd (sort_key fst (zip keys arts)))"


text \<open>The integer key of an article whose \<open>numeric_id\<close> parses (and 0 otherwise: the key is
  only read when every \<open>numeric_id\<close> parses).\<close>

definition int_key :: "article \<Rightarrow> int" where
  "int_key a = (case py_int (numeric_id a) of Some n \<Rightarrow> n | None \<Rightarrow> 0)"

text \<open>An article with a given \<open>numeric_id\<close> and title, for the examples.\<close>

definition mk_art :: "string \<Rightarrow> string \<Rightarrow> article" where
  "mk_art n t = \<lparr>number = n, numeric_id = n, title = t, content = [], sections = []\<rparr>"


text \<open>
  \<open>ARTICLE_PATTERNS\<close> and \<open>SECTION_PATTERNS\<close> are lists of five regular expressions
  each; a pattern is named by its index. The results of the regular-expression calls are
  inputs: \<open>art_search i k s\<close> is \<open>re.search(ARTICLE_PATTERNS[k], s)\<close> (with
  \<open>re.IGNORECASE\<close> when \<open>i\<close>), \<open>art_match_i k s\<close> says whether
  \<open>re.match(ARTICLE_PATTERNS[k], s, re.IGNORECASE)\<close> matches, \<open>header_match s\<close> whether
  the header shape of line 91 of articles.py matches at the start of \<open>s\<close>, and the two
  \<open>finditer\<close> fields list the matches of a pattern in a text, by position.

  The section phase of \<open>extract_articles\<close> builds its patterns from numbers and titles:
  \<open>article_pattern_start n t s\<close> is the start of the first match in \<open>s\<close> of
  \<open>article_pattern\<close> (lines 134 to 136: the number \<open>n\<close> after ARTICLE or Article, or
  the title \<open>t\<close> when it is not empty), \<open>next_art_pattern_start n t s\<close> that of
  \<open>next_art_pattern\<close> (line 157, where the title is an alternative even when it is
  empty), both with \<open>re.IGNORECASE\<close>, and \<open>section_pattern_span n t s\<close> the start and the
  end of the first match of \<open>section_pattern\<close> (lines 234 and 246). \<open>sec_search k s\<close> is
  \<open>re.search(SECTION_PATTERNS[k], s)\<close>, and \<open>section_shape\<close> and \<open>bert_section_shape\<close>
  say whether the shapes of lines 180 to 181 and of line 214 match at the start of a
  string.
\<close>

definition ARTICLE_PATTERNS :: "nat list" where
  "ARTICLE_PATTERNS = [0, 1, 2, 3, 4]"

definition SECTION_PATTERNS :: "nat list" where
  "SECTION_PATTERNS = [0, 1, 2, 3, 4]"

record re_env =
  art_search :: "bool \<Rightarrow> nat \<Rightarrow> string \<Rightarrow> rmatch option"
  art_match_i :: "nat \<Rightarrow> string \<Rightarrow> bool"
  header_match :: "string \<Rightarrow> bool"
  art_finditer :: "nat \<Rightarrow> string \<Rightarrow> rmatch list"
  sec_finditer :: "nat \<Rightarrow> string \<Rightarrow> rmatch list"
  article_pattern_start :: "string \<Rightarrow> string \<Rightarrow> string \<Rightarrow> nat option"
  next_art_pattern_start :: "string \<Rightarrow> string \<Rightarrow> string \<Rightarrow> nat option"
  section_pattern_span :: "string \<Rightarrow> string \<Rightarrow> string \<Rightarrow> (nat \<times> nat) option"
  sec_search :: "nat \<Rightarrow> string \<Rightarrow> rmatch option"
  section_shape :: "string \<Rightarrow> bool"
  bert_section_shape :: "string \<Rightarrow> bool"

text \<open>\<open>for pattern in PATTERNS: match = re.search(...); if match: ...; break\<close>.\<close>

fun first_search :: "(nat \<Rightarrow> rmatch option) \<Rightarrow> nat list \<Rightarrow> rmatch option" where
  "first_search f [] = None"
| "first_search f (k # ks) = (case f k of Some m \<Rightarrow> Some m | None \<Rightarrow> first_search f ks)"

subsection \<open>extract\_articles\<close>

text \<open>The text of a document: \<open>"\n".join(page["text"] for page in document["pages"])\<close>;
  a missing key raises.\<close>

definition full_text_of :: "document \<Rightarrow> py_error + string" where
  "full_text_of d =
     (case pages d of
        None \<Rightarrow> Inl KeyError
      | Some ps \<Rightarrow>
          (case those (map page_text ps) of
             None \<Rightarrow> Inl KeyError
           | Some ts \<Rightarrow> Inr (py_join [CHR 0x0A] ts)))"

text \<open>Lines 42 to 56: the entities of group ORG or LAW whose word looks like an article
  header, over the chunks of 450 characters of the first 50000 characters.\<close>

definition is_article_entity :: "re_env \<Rightarrow> ner_entity \<Rightarrow> bool" where
  "is_article_entity R e =
     ((entity_group e = ''ORG'' \<or> entity_group e = ''LAW'') \<and>
      (py_in ''ARTICLE'' (upper (word e)) \<or>
       list_ex (\<lambda>k. art_match_i R k (word e)) ARTICLE_PATTERNS))"

definition structure_entities :: "nlp_env \<Rightarrow> re_env \<Rightarrow> string \<Rightarrow> string list" where
  "structure_entities N R full_text =
     concat (map (\<lambda>chunk. map word (filter (is_article_entity R) (contractbert_ner N chunk)))
                 (chunks 450 50000 full_text))"

text \<open>Lines 59 to 79: one article for each such entity that one of the patterns matches.\<close>

definition bert_articles :: "re_env \<Rightarrow> string list \<Rightarrow> article list" where
  "bert_articles R ents =
     concat (map (\<lambda>w. case first_search (\<lambda>k. art_search R True k w) ARTICLE_PATTERNS of
                         Some m \<Rightarrow> [new_article m]
                       | None \<Rightarrow> [])
                 ents)"

text \<open>Lines 88 to 121, for one sentence: a sentence that is upper case or has the shape of
  a header gives an article when a pattern matches it; and while the list is still empty,
  an upper-case sentence of fewer than eight words becomes an article numbered by its
  position.\<close>

definition sent_step :: "re_env \<Rightarrow> article list \<Rightarrow> string \<Rightarrow> article list" where
  "sent_step R arts s =
     (let arts1 =
        (if isupper s \<or> header_match R s
         then (case first_search (\<lambda>k. art_search R False k s) ARTICLE_PATTERNS of
                 Some m \<Rightarrow> arts @ [new_article m]
               | None \<Rightarrow> arts)
         else arts)
      in if arts1 = [] \<and> isupper s \<and> length (py_split s) < 8
         then arts1 @ [\<lparr>number = str_nat (length arts1 + 1),
                         numeric_id = str_nat (length arts1 + 1),
                         title = strip s, content = [], sections = []\<rparr>]
         else arts1)"

definition spacy_articles :: "nlp_env \<Rightarrow> re_env \<Rightarrow> string \<Rightarrow> article list \<Rightarrow> article list" where
  "spacy_articles N R full_text arts =
     fold (\<lambda>s a. sent_step R a s)
          (concat (map (nlp_sents N) (chunks 10000 (length full_text) full_text))) arts"

text \<open>
  Lines 131 to 265 visit the articles in order. They assign only the \<open>sections\<close> and the
  \<open>content\<close> of an article, and they read the numbers and the titles of the article and
  of its neighbours, which no step changes.

  Lines 134 to 151: the article starts at the first match of its pattern; without a match
  the first article starts at 0 and a later one where the title of the previous article
  is found (after it, when that is not at offset 0), which is \<open>-1\<close> when the title does not
  occur.
\<close>

definition article_start_idx :: "re_env \<Rightarrow> string \<Rightarrow> article list \<Rightarrow> nat \<Rightarrow> int" where
  "article_start_idx R full_text arts idx =
     (case article_pattern_start R (number (arts ! idx)) (title (arts ! idx)) full_text of
        Some i \<Rightarrow> int i
      | None \<Rightarrow>
          if idx = 0 then 0
          else (let prev_art_title = title (arts ! (idx - 1));
                    i = py_find full_text prev_art_title
                in if i > 0 then i + int (length prev_art_title) else i))"

text \<open>Lines 154 to 161: the article ends where the pattern of the next article first
  matches in the text from the start of this one, or at the end of the text.\<close>

definition article_end_idx :: "re_env \<Rightarrow> string \<Rightarrow> article list \<Rightarrow> nat \<Rightarrow> nat \<Rightarrow> nat" where
  "article_end_idx R full_text arts idx start =
     (if idx + 1 < length arts
      then (case next_art_pattern_start R (number (arts ! (idx + 1))) (title (arts ! (idx + 1)))
                   (drop start full_text) of
              Some i \<Rightarrow> start + i
            | None \<Rightarrow> length full_text)
      else length full_text)"

text \<open>Line 165, for a start that is not negative.\<close>

definition article_text_of :: "re_env \<Rightarrow> string \<Rightarrow> article list \<Rightarrow> nat \<Rightarrow> string" where
  "article_text_of R full_text arts idx =
     (let start = nat (article_start_idx R full_text arts idx)
      in slice full_text start (article_end_idx R full_text arts idx start))"

text \<open>The section of a match that has two groups (\<open>match and len(match.groups()) >= 2\<close>).\<close>

definition section_of_match :: "rmatch option \<Rightarrow> section_rec option" where
  "section_of_match r =
     (case r of
        None \<Rightarrow> None
      | Some m \<Rightarrow>
          (case group2 m of
             None \<Rightarrow> None
           | Some t \<Rightarrow> Some \<lparr>sec_number = group1 m, sec_title = strip t, sec_content = []\<rparr>))"

fun first_section :: "(nat \<Rightarrow> section_rec option) \<Rightarrow> nat list \<Rightarrow> section_rec option" where
  "first_section f [] = None"
| "first_section f (k # ks) = (case f k of Some sec \<Rightarrow> Some sec | None \<Rightarrow> first_section f ks)"

text \<open>Lines 174 to 200: the sentences of the chunks that have the shape of a section
  header, and one section for each of them that a section pattern matches.\<close>

definition header_sections :: "nlp_env \<Rightarrow> re_env \<Rightarrow> string list \<Rightarrow> section_rec list" where
  "header_sections N R article_chunks =
     (let section_chunks = filter (section_shape R) (concat (map (nlp_sents N) article_chunks))
      in concat (map (\<lambda>section_text.
                        case first_section (\<lambda>k. section_of_match (sec_search R k section_text))
                               SECTION_PATTERNS of
                          Some sec \<Rightarrow> [sec]
                        | None \<Rightarrow> [])
                     section_chunks))"

text \<open>Lines 205 to 230, entered when the article has no section: every entity word with
  the shape of a section header gives, for each section pattern that matches it, a
  section, unless a section with this number is there already.\<close>

definition bert_word_step :: "re_env \<Rightarrow> string \<Rightarrow> section_rec list \<Rightarrow> section_rec list" where
  "bert_word_step R w secs =
     (if bert_section_shape R w
      then fold (\<lambda>k ss. case section_of_match (sec_search R k w) of
                           Some sec \<Rightarrow>
                             if list_ex (\<lambda>s. sec_number s = sec_number sec) ss then ss
                             else ss @ [sec]
                         | None \<Rightarrow> ss)
                SECTION_PATTERNS secs
      else secs)"

definition bert_sections :: "nlp_env \<Rightarrow> re_env \<Rightarrow> string \<Rightarrow> section_rec list" where
  "bert_sections N R article_text =
     fold (bert_word_step R)
          (concat (map (\<lambda>chunk. map word (contractbert_ner N chunk))
                       (chunks 450 20000 article_text)))
          []"

text \<open>Lines 233 to 253: the content of the section at index \<open>i\<close> runs from the end of the
  match of its pattern to the match of the pattern of the next section, or to the end of
  the article; a section whose pattern does not match keeps its content.\<close>

definition section_with_content :: "re_env \<Rightarrow> string \<Rightarrow> section_rec list \<Rightarrow> nat \<Rightarrow> section_rec" where
  "section_with_content R article_text secs i =
     (case section_pattern_span R (sec_number (secs ! i)) (sec_title (secs ! i)) article_text of
        None \<Rightarrow> secs ! i
      | Some (match_start, section_start) \<Rightarrow>
          (let section_end =
                 (if i + 1 < length secs
                  then (case section_pattern_span R (sec_number (secs ! (i + 1)))
                               (sec_title (secs ! (i + 1))) (drop section_start article_text) of
                          Some (next_start, next_end) \<Rightarrow> section_start + next_start
                        | None \<Rightarrow> length article_text)
                  else length article_text)
           in (secs ! i)\<lparr>sec_content := strip (slice article_text section_start section_end)\<rparr>))"

text \<open>Lines 258 to 263: the end of the article header, or 0.\<close>

definition content_start :: "re_env \<Rightarrow> string \<Rightarrow> nat" where
  "content_start R article_text =
     (case first_search (\<lambda>k. art_search R False k article_text) ARTICLE_PATTERNS of
        Some m \<Rightarrow> mend m
      | None \<Rightarrow> 0)"

text \<open>Lines 172 to 265 for one article, once its chunk size is known.\<close>

definition article_body :: "nlp_env \<Rightarrow> re_env \<Rightarrow> string \<Rightarrow> nat \<Rightarrow> article \<Rightarrow> article" where
  "article_body N R article_text article_chunk_size a =
     (let article_chunks = chunks article_chunk_size (length article_text) article_text;
          s1 = sections a @ header_sections N R article_chunks;
          s2 = (if s1 = [] then bert_sections N R article_text else s1);
          s3 = map (section_with_content R article_text s2) [0 ..< length s2]
      in if s3 = []
         then a\<lparr>content := strip (drop (content_start R article_text) article_text),
                sections := s3\<rparr>
         else a\<lparr>sections := s3\<rparr>)"

text \<open>
  Lines 133 to 265 for the article at index \<open>idx\<close>. An article whose start is \<open>-1\<close> is
  left as it is. Otherwise the text of the article is cut into chunks of
  \<open>min(len(article_text), 10000)\<close> characters with
  \<open>range(0, len(article_text), article_chunk_size)\<close>: when the text of the article is
  empty the step is 0 and \<open>range\<close> raises \<open>ValueError\<close>, which nothing catches.
\<close>

definition section_step :: "nlp_env \<Rightarrow> re_env \<Rightarrow> string \<Rightarrow> article list \<Rightarrow> nat \<Rightarrow> py_error + article" where
  "section_step N R full_text arts idx =
     (if article_start_idx R full_text arts idx < 0 then Inr (arts ! idx)
      else (let article_text = article_text_of R full_text arts idx;
                article_chunk_size = min (length article_text) 10000
            in if article_chunk_size = 0 then Inl ValueError
               else Inr (article_body N R article_text article_chunk_size (arts ! idx))))"

fun section_loop ::
  "nlp_env \<Rightarrow> re_env \<Rightarrow> string \<Rightarrow> article list \<Rightarrow> nat list \<Rightarrow> py_error + article list" where
  "section_loop N R full_text arts [] = Inr []"
| "section_loop N R full_text arts (idx # idxs) =
     (case section_step N R full_text arts idx of
        Inl e \<Rightarrow> Inl e
      | Inr a \<Rightarrow>
          (case section_loop N R full_text arts idxs of
             Inl e \<Rightarrow> Inl e
           | Inr rest \<Rightarrow> Inr (a # rest)))"

definition section_phase :: "nlp_env \<Rightarrow> re_env \<Rightarrow> string \<Rightarrow> article list \<Rightarrow> py_error + article list" where
  "section_phase N R full_text arts = section_loop N R full_text arts [0 ..< length arts]"

text \<open>The body of the loop over the documents, and the loop; \<open>articles\<close> is one list for
  all documents.\<close>

definition extract_articles_doc ::
  "nlp_env \<Rightarrow> re_env \<Rightarrow> document \<Rightarrow> article list \<Rightarrow> py_error + article list" where
  "extract_articles_doc N R d arts =
     (case full_text_of d of
        Inl e \<Rightarrow> Inl e
      | Inr full_text \<Rightarrow>
          (let a1 = arts @ bert_articles R (structure_entities N R full_text);
               a2 = (if a1 = [] then spacy_articles N R full_text a1 else a1);
               a3 = sort_articles a2
           in section_phase N R full_text a3))"

fun extract_articles_loop ::
  "nlp_env \<Rightarrow> re_env \<Rightarrow> document list \<Rightarrow> article list \<Rightarrow> py_error + article list" where
  "extract_articles_loop N R [] arts = Inr arts"
| "extract_articles_loop N R (d # ds) arts =
     (case extract_articles_doc N R d arts of
        Inl e \<Rightarrow> Inl e
      | Inr arts' \<Rightarrow> extract_articles_loop N R ds arts')"

definition extract_articles ::
  "nlp_env \<Rightarrow> re_env \<Rightarrow> document list \<Rightarrow> py_error + article list" where
  "extract_articles N R data = extract_articles_loop N R data []"

subsection \<open>extract\_articles\_from\_text and extract\_sections\_from\_text\<close>

text \<open>The dictionaries collected from the matches: number, title, start, end.\<close>

record header =
  hd_number :: string
  hd_title :: string
  hd_start :: nat
  hd_end :: nat

definition to_header :: "rmatch \<Rightarrow> header" where
  "to_header m =
     \<lparr>hd_number = group1 m, hd_title = match_title m, hd_start = mstart m, hd_end = mend m\<rparr>"

definition section_headers :: "re_env \<Rightarrow> string \<Rightarrow> header list" where
  "section_headers R article_text =
     sort_key hd_start
       (concat (map (\<lambda>k. map to_header (sec_finditer R k article_text)) SECTION_PATTERNS))"

fun sections_of_headers :: "string \<Rightarrow> header list \<Rightarrow> section_rec list" where
  "sections_of_headers article_text [] = []"
| "sections_of_headers article_text (m # ms) =
     (let section_end = (case ms of [] \<Rightarrow> length article_text | n # _ \<Rightarrow> hd_start n)
      in \<lparr>sec_number = hd_number m, sec_title = hd_title m,
           sec_content = strip (slice article_text (hd_end m) section_end)\<rparr>
         # sections_of_headers article_text ms)"

definition extract_sections_from_text :: "re_env \<Rightarrow> string \<Rightarrow> section_rec list" where
  "extract_sections_from_text R article_text =
     sections_of_headers article_text (section_headers R article_text)"

definition article_headers :: "re_env \<Rightarrow> string \<Rightarrow> header list" where
  "article_headers R txt =
     sort_key hd_start
       (concat (map (\<lambda>k. map to_header (art_finditer R k txt)) ARTICLE_PATTERNS))"

fun articles_of_headers :: "re_env \<Rightarrow> string \<Rightarrow> header list \<Rightarrow> article list" where
  "articles_of_headers R txt [] = []"
| "articles_of_headers R txt (m # ms) =
     (let article_end = (case ms of [] \<Rightarrow> length txt | n # _ \<Rightarrow> hd_start n);
          article_content = strip (slice txt (hd_end m) article_end)
      in \<lparr>number = hd_number m, numeric_id = to_numeric_id (hd_number m),
           title = hd_title m, content = article_content,
           sections = extract_sections_from_text R article_content\<rparr>
         # articles_of_headers R txt ms)"

definition extract_articles_from_text :: "re_env \<Rightarrow> string \<Rightarrow> article list" where
  "extract_articles_from_text R txt = articles_of_headers R txt (article_headers R txt)"


section \<open>Parties and signatories (extract/parties.py)\<close>

record signatory =
  sig_name :: string
  sig_title :: string

record party =
  name :: string
  party_type :: string
  signatories :: "signatory list"

text \<open>
  A regular expression that is an alternation of literal strings matches somewhere in a
  text exactly when one of the strings occurs in it; such patterns are modelled by their
  lists of strings. The two remaining expressions are inputs: \<open>between_re s\<close> is the pair
  of groups of the "Between ... and ..." search in \<open>s\<close>, and \<open>sig_finditer k s\<close> lists the
  groups of every match of \<open>SIGNATURE_PATTERNS[k]\<close> in \<open>s\<close>.
\<close>

definition search_any :: "string list \<Rightarrow> string \<Rightarrow> bool" where
  "search_any lits s = list_ex (\<lambda>l. py_in l s) lits"

record party_re =
  between_re :: "string \<Rightarrow> (string \<times> string) option"
  sig_finditer :: "nat \<Rightarrow> string \<Rightarrow> string list list"

definition SIGNATURE_PATTERNS :: "nat list" where
  "SIGNATURE_PATTERNS = [0, 1]"

definition ORG_TYPES :: "(string list \<times> string) list" where
  "ORG_TYPES =
     [([''Inc.'', ''Corporation'', ''Corp.''], ''Corporation''),
      ([''LLC''], ''Limited Liability Company''),
      ([''Ltd.'', ''Limited''], ''Limited Company''),
      ([''B.V.''], ''Dutch Private Limited Company''),
      ([''GmbH''], ''German Limited Liability Company''),
      ([''S.A.''], ''Anonymous Society''),
      ([''LLP''], ''Limited Liability Partnership''),
      ([''AG''], ''German Public Company''),
      ([''ApS''], ''Danish Private Limited Company''),
      ([''OY'', ''OYJ''], ''Finnish Company''),
      ([''PLC'', ''P.L.C.''], ''Public Limited Company'')]"

text \<open>\<open>re.sub(r'\s+', ' ', s)\<close> and \<open>s.replace(c, t)\<close> for a single character \<open>c\<close>.\<close>

function collapse_ws :: "string \<Rightarrow> string" where
  "collapse_ws [] = []"
| "collapse_ws (c # cs) =
     (if is_space c then CHR '' '' # collapse_ws (dropWhile is_space cs)
      else c # collapse_ws cs)"
  by pat_completeness auto
termination
  by (relation "measure length") (auto simp: length_dropWhile_le less_Suc_eq_le)

definition replace_char :: "char \<Rightarrow> string \<Rightarrow> string \<Rightarrow> string" where
  "replace_char c t s = concat (map (\<lambda>x. if x = c then t else [x]) s)"

subsection \<open>The texts read\<close>

text \<open>\<open>"\n".join([pages[i]["text"] for i in range(n)])\<close> for the pages given.\<close>

definition join_pages :: "page list \<Rightarrow> py_error + string" where
  "join_pages ps =
     (case those (map page_text ps) of
        None \<Rightarrow> Inl KeyError
      | Some ts \<Rightarrow> Inr (py_join [CHR 0x0A] ts))"

definition first_pages :: "page list \<Rightarrow> page list" where
  "first_pages ps = take (min 3 (length ps)) ps"

definition last_pages :: "page list \<Rightarrow> page list" where
  "last_pages ps = (if length ps > 2 then drop (length ps - 2) ps else [])"

subsection \<open>Candidate parties (lines 34 to 119)\<close>

text \<open>The words of the entities of one group, stripped, longer than two characters.\<close>

definition bert_words :: "nlp_env \<Rightarrow> string \<Rightarrow> string \<Rightarrow> string list" where
  "bert_words N grp first_pages_text =
     concat (map (\<lambda>chunk.
        filter (\<lambda>w. w \<noteq> [] \<and> length w > 2)
          (map (\<lambda>e. strip (word e))
             (filter (\<lambda>e. entity_group e = grp) (contractbert_ner N chunk))))
        (chunks 450 10000 first_pages_text))"

text \<open>Lines 60 to 74. The indicators of line 70 are tested with \<open>in\<close>, so \<open>.*\<close> stands
  for itself there.\<close>

definition looks_like_party :: "string \<Rightarrow> bool" where
  "looks_like_party org =
     (length (py_split org) > 1 \<and>
      (search_any [''Inc.'', ''LLC'', ''Ltd.'', ''Limited'', ''Corp.'', ''Corporation'', ''B.V.'', ''GmbH''] org \<or>
       search_any [''Company'', ''Corporation'', ''Technologies'', ''Systems'', ''International''] org))"

definition near_party_context :: "string \<Rightarrow> string \<Rightarrow> bool" where
  "near_party_context first_pages_text org =
     list_ex (\<lambda>indicator. py_in indicator first_pages_text)
       [''party'', ''between.*'' @ org, org @ ''.*agrees'', org @ ''.*hereinafter'',
        org @ ''.*referred to'']"

definition org_step :: "string \<Rightarrow> string list \<Rightarrow> string \<Rightarrow> string list" where
  "org_step first_pages_text potential org =
     (let p1 = (if looks_like_party org then potential @ [org] else potential)
      in if near_party_context first_pages_text org then p1 @ [org] else p1)"

text \<open>\<open>if x not in xs: xs.append(x)\<close>.\<close>

definition append_new :: "'a list \<Rightarrow> 'a \<Rightarrow> 'a list" where
  "append_new xs x = (if x \<in> set xs then xs else xs @ [x])"

text \<open>Lines 76 to 89: the organizations named in the two halves of the "Between" clause.\<close>

definition between_step :: "party_re \<Rightarrow> string \<Rightarrow> string list \<Rightarrow> string list \<Rightarrow> string list" where
  "between_step P first_pages_text orgs potential =
     (case between_re P first_pages_text of
        None \<Rightarrow> potential
      | Some (g1, g2) \<Rightarrow>
          fold (\<lambda>party_text pot.
                  fold (\<lambda>org pot'. if py_in org party_text then append_new pot' org else pot')
                       orgs pot)
               [strip g1, strip g2] potential)"

text \<open>Lines 98 to 119, for one chunk of 10000 characters.\<close>

definition ORG_WORDS :: "string list" where
  "ORG_WORDS = [''inc'', ''corp'', ''llc'', ''ltd'', ''company'', ''corporation'',
                ''technologies'', ''systems'', ''associates'', ''partners'']"

definition spacy_ent_step :: "string list \<Rightarrow> span \<Rightarrow> string list" where
  "spacy_ent_step potential ent =
     (if label ent = ''ORG'' \<and> length (ent_text ent) > 2
      then (let org = strip (ent_text ent)
            in if length (py_split org) > 1 \<and> length org > 5 then append_new potential org
               else potential)
      else potential)"

definition noun_chunk_step :: "string list \<Rightarrow> string \<Rightarrow> string list" where
  "noun_chunk_step potential chunk_text =
     (if list_ex (\<lambda>org_word. py_in org_word (lower chunk_text)) ORG_WORDS
      then (let org = strip chunk_text
            in if length (py_split org) > 1 \<and> length org > 5 \<and> org \<notin> set potential
               then potential @ [org] else potential)
      else potential)"

definition spacy_chunk_step :: "nlp_env \<Rightarrow> string list \<Rightarrow> string \<Rightarrow> string list" where
  "spacy_chunk_step N potential chunk =
     fold (\<lambda>c pot. noun_chunk_step pot c) (nlp_noun_chunks N chunk)
       (fold (\<lambda>e pot. spacy_ent_step pot e) (nlp_ents N chunk) potential)"

definition potential_parties :: "nlp_env \<Rightarrow> party_re \<Rightarrow> string \<Rightarrow> string list" where
  "potential_parties N P first_pages_text =
     (let orgs = bert_words N ''ORG'' first_pages_text;
          p1 = fold (\<lambda>org pot. org_step first_pages_text pot org) orgs [];
          p2 = between_step P first_pages_text orgs p1
      in fold (\<lambda>chunk pot. spacy_chunk_step N pot chunk)
              (chunks 10000 (length first_pages_text) first_pages_text) p2)"


subsection \<open>Party records (lines 121 to 158)\<close>

definition normalize_name :: "string \<Rightarrow> string" where
  "normalize_name n =
     replace_char (CHR 0x22) [CHR 0x22] (replace_char (CHR 0x22) [CHR 0x22] (strip (collapse_ws n)))"

definition PARTY_STOPLIST :: "string list" where
  "PARTY_STOPLIST = [''article'', ''section'', ''agreement'', ''contract'', ''date'',
                     ''herein'', ''hereof'', ''hereto'', ''effective date'']"

definition org_type_of :: "string \<Rightarrow> string" where
  "org_type_of party_name =
     (case find (\<lambda>(lits, type_name). search_any lits party_name) ORG_TYPES of
        Some (lits, type_name) \<Rightarrow> type_name
      | None \<Rightarrow> ''Organization'')"

text \<open>The state of the loop is \<open>seen_parties\<close> and \<open>parties\<close>. A name is added to
  \<open>seen_parties\<close> only when it is in no substring relation with a member, so the set is
  kept as the list of its members in the order they were added.\<close>

definition similar :: "string \<Rightarrow> string \<Rightarrow> bool" where
  "similar a b = (py_in a b \<or> py_in b a)"

definition party_step :: "string list \<times> party list \<Rightarrow> string \<Rightarrow> string list \<times> party list" where
  "party_step st raw =
     (let party_name = normalize_name raw in
      if list_ex (\<lambda>x. py_in x (lower party_name)) PARTY_STOPLIST then st
      else if \<not> list_ex (\<lambda>seen. similar party_name seen) (fst st) \<and> length party_name > 5
      then (fst st @ [party_name],
            snd st @ [\<lparr>name = party_name, party_type = org_type_of party_name, signatories = []\<rparr>])
      else st)"

definition party_records :: "string list \<Rightarrow> party list" where
  "party_records potential = snd (fold (\<lambda>n st. party_step st n) potential ([], []))"

subsection \<open>Signatories (lines 160 to 239)\<close>

text \<open>The organizations and the people of the signature pages.\<close>

definition sig_bert_step :: "string list \<times> string list \<Rightarrow> ner_entity \<Rightarrow> string list \<times> string list" where
  "sig_bert_step st e =
     (let w = strip (word e) in
      if entity_group e = ''ORG'' \<and> w \<noteq> [] then (fst st @ [w], snd st)
      else if entity_group e = ''PERSON'' \<and> w \<noteq> [] then (fst st, snd st @ [w])
      else st)"

definition sig_spacy_step :: "string list \<times> string list \<Rightarrow> span \<Rightarrow> string list \<times> string list" where
  "sig_spacy_step st ent =
     (if label ent = ''ORG'' \<and> ent_text ent \<notin> set (fst st) then (fst st @ [ent_text ent], snd st)
      else if label ent = ''PERSON'' \<and> ent_text ent \<notin> set (snd st) then (fst st, snd st @ [ent_text ent])
      else st)"

definition signature_entities :: "nlp_env \<Rightarrow> string \<Rightarrow> string list \<times> string list" where
  "signature_entities N last_pages_text =
     fold (\<lambda>chunk st. fold (\<lambda>ent st'. sig_spacy_step st' ent) (nlp_ents N chunk) st)
          (chunks 10000 (length last_pages_text) last_pages_text)
          (fold (\<lambda>chunk st. fold (\<lambda>e st'. sig_bert_step st' e) (contractbert_ner N chunk) st)
                (chunks 450 5000 last_pages_text) ([], []))"

text \<open>Lines 190 to 203: a match with three groups names a company, a person and a title;
  the signatory is appended to the first party whose name contains the company name or
  is contained in it.\<close>

fun attach_first :: "string \<Rightarrow> signatory \<Rightarrow> party list \<Rightarrow> party list" where
  "attach_first company_name sg [] = []"
| "attach_first company_name sg (p # ps) =
     (if py_in company_name (name p) \<or> py_in (name p) company_name
      then p\<lparr>signatories := signatories p @ [sg]\<rparr> # ps
      else p # attach_first company_name sg ps)"

definition sig_match_step :: "party list \<Rightarrow> string list \<Rightarrow> party list" where
  "sig_match_step ps groups =
     (case groups of
        g1 # g2 # g3 # rest \<Rightarrow>
          attach_first (strip g1) \<lparr>sig_name = strip g2, sig_title = strip g3\<rparr> ps
      | _ \<Rightarrow> ps)"

definition pattern_signatories :: "party_re \<Rightarrow> string \<Rightarrow> party list \<Rightarrow> party list" where
  "pattern_signatories P last_pages_text ps =
     fold (\<lambda>k ps'. fold (\<lambda>groups ps''. sig_match_step ps'' groups)
                         (sig_finditer P k last_pages_text) ps')
          SIGNATURE_PATTERNS ps"

text \<open>Lines 205 to 230: every person entity of the signature pages is attached, with the
  title Signatory, to each party that matches the organization entity nearest to it in
  tokens, when that distance is below 50 and the party does not have this signatory yet.\<close>

definition token_distance :: "span \<Rightarrow> span \<Rightarrow> nat" where
  "token_distance a b =
     (if ent_start a \<ge> ent_start b then ent_start a - ent_start b else ent_start b - ent_start a)"

definition closest_step :: "span \<Rightarrow> span option \<times> nat option \<Rightarrow> span \<Rightarrow> span option \<times> nat option" where
  "closest_step person st org =
     (let distance = token_distance person org in
      if (case snd st of None \<Rightarrow> True | Some m \<Rightarrow> distance < m)
      then (Some org, Some distance) else st)"

definition add_signatory :: "signatory \<Rightarrow> party \<Rightarrow> party" where
  "add_signatory sg p =
     (if sg \<in> set (signatories p) then p else p\<lparr>signatories := signatories p @ [sg]\<rparr>)"

definition proximity_step :: "span list \<Rightarrow> party list \<Rightarrow> span \<Rightarrow> party list" where
  "proximity_step org_spans ps person =
     (case fold (\<lambda>org st. closest_step person st org) org_spans (None, None) of
        (Some closest_org, Some min_distance) \<Rightarrow>
          if min_distance < 50
          then map (\<lambda>p. if py_in (ent_text closest_org) (name p) \<or> py_in (name p) (ent_text closest_org)
                          then add_signatory \<lparr>sig_name = ent_text person, sig_title = ''Signatory''\<rparr> p
                          else p) ps
          else ps
      | _ \<Rightarrow> ps)"

definition proximity_signatories :: "nlp_env \<Rightarrow> string \<Rightarrow> party list \<Rightarrow> party list" where
  "proximity_signatories N last_pages_text ps =
     (let ents = nlp_ents N last_pages_text;
          org_spans = filter (\<lambda>e. label e = ''ORG'') ents;
          person_spans = filter (\<lambda>e. label e = ''PERSON'') ents
      in fold (\<lambda>person ps'. proximity_step org_spans ps' person) person_spans ps)"

text \<open>Lines 232 to 239: when no party has a signatory, the i-th person goes to the i-th
  party.\<close>

definition positional_signatories :: "string list \<Rightarrow> party list \<Rightarrow> party list" where
  "positional_signatories people ps =
     (if list_all (\<lambda>p. length (signatories p) = 0) ps
      then map (\<lambda>(i, p). if i < length people
                          then p\<lparr>signatories := signatories p @
                                   [\<lparr>sig_name = people ! i, sig_title = ''Signatory''\<rparr>]\<rparr>
                          else p)
               (enumerate 0 ps)
      else ps)"

definition resolve_signatories :: "nlp_env \<Rightarrow> party_re \<Rightarrow> string \<Rightarrow> party list \<Rightarrow> party list" where
  "resolve_signatories N P last_pages_text ps =
     positional_signatories (snd (signature_entities N last_pages_text))
       (proximity_signatories N last_pages_text
          (pattern_signatories P last_pages_text ps))"

subsection \<open>extract\_parties\<close>

definition extract_parties :: "nlp_env \<Rightarrow> party_re \<Rightarrow> document list \<Rightarrow> py_error + party list" where
  "extract_parties N P data =
     (case data of
        [] \<Rightarrow> Inr []
      | d # ds \<Rightarrow>
          (case pages d of
             None \<Rightarrow> Inr []
           | Some ps \<Rightarrow>
               (case join_pages (first_pages ps) of
                  Inl e \<Rightarrow> Inl e
                | Inr first_pages_text \<Rightarrow>
                    (case join_pages (last_pages ps) of
                       Inl e \<Rightarrow> Inl e
                     | Inr last_pages_text \<Rightarrow>
                         Inr (resolve_signatories N P last_pages_text
                                (party_records (potential_parties N P first_pages_text)))))))"


section \<open>Contract metadata (extract/metadata.py)\<close>

subsection \<open>Entities of the first page (lines 61 to 85)\<close>

text \<open>
  The words collected for one entity type, over the chunks of 450 characters of the first
  10000 characters: stripped words of more than one character; a DATE word that is a
  prefix of one of the last three dates collected, or has one of them as a prefix, is
  skipped.
\<close>

definition meta_entity_step :: "string \<Rightarrow> string list \<Rightarrow> ner_entity \<Rightarrow> string list" where
  "meta_entity_step ty acc e =
     (let w = strip (word e) in
      if entity_group e = ty \<and> w \<noteq> [] \<and> length w > 1
      then (if ty = ''DATE'' \<and> acc \<noteq> [] \<and>
               list_ex (\<lambda>date_word. prefix w date_word \<or> prefix date_word w)
                       (drop (length acc - 3) acc)
            then acc else acc @ [w])
      else acc)"

definition meta_entities :: "nlp_env \<Rightarrow> string \<Rightarrow> string \<Rightarrow> string list" where
  "meta_entities N ty first_page_text =
     fold (\<lambda>chunk acc. fold (\<lambda>e acc'. meta_entity_step ty acc' e) (contractbert_ner N chunk) acc)
          (chunks 450 10000 first_page_text) []"

subsection \<open>Effective date (lines 26 to 29 and 87 to 138)\<close>

text \<open>
  The results of the three regular expressions on the first page are inputs:
  \<open>direct_date\<close> is group 1 of the search for the literal "Effective Date: <date>",
  \<open>date_pattern_matches\<close> lists the text of every match of every pattern of
  \<open>DATE_PATTERNS\<close> in the order the loops meet them, and \<open>month_day_year\<close> is group 1
  of the search for "Month DD, YYYY".
\<close>

record date_re =
  direct_date :: "string \<Rightarrow> string option"
  date_pattern_matches :: "string \<Rightarrow> string list"
  month_day_year :: "string \<Rightarrow> string option"

definition DATE_CONTEXTS :: "string list" where
  "DATE_CONTEXTS = [''effective date'', ''dated as of'', ''agreement date'', ''executed on'',
                    ''entered into on'']"

text \<open>\<open>re.sub(r'[.:,;]', ' ', first_page_text.lower())\<close>.\<close>

definition normalized_text :: "string \<Rightarrow> string" where
  "normalized_text first_page_text =
     map (\<lambda>c. if c \<in> set ''.:,;'' then CHR '' '' else c) (lower first_page_text)"

text \<open>The inner loop over the candidate dates; \<open>min_distance\<close> starts as infinity, which
  is \<open>None\<close>.\<close>

fun closest_date_loop ::
  "string \<Rightarrow> int \<Rightarrow> string list \<Rightarrow> string option \<Rightarrow> int option \<Rightarrow> string option" where
  "closest_date_loop nt context_pos [] closest_date min_distance = closest_date"
| "closest_date_loop nt context_pos (d # ds) closest_date min_distance =
     (let date_pos = py_find nt (lower d) in
      if date_pos > context_pos \<and> date_pos - context_pos < 100
      then (let distance = date_pos - context_pos in
            if (case min_distance of None \<Rightarrow> True | Some m \<Rightarrow> distance < m)
            then closest_date_loop nt context_pos ds (Some d) (Some distance)
            else closest_date_loop nt context_pos ds closest_date min_distance)
      else closest_date_loop nt context_pos ds closest_date min_distance)"

text \<open>The loop over the context phrases; it stops at the first phrase that occurs in the
  text and has a date near it.\<close>

fun context_loop :: "string \<Rightarrow> string list \<Rightarrow> string list \<Rightarrow> string option" where
  "context_loop first_page_text dates [] = None"
| "context_loop first_page_text dates (c # cs) =
     (let nt = normalized_text first_page_text;
          context_pos = py_find nt c
      in if context_pos \<ge> 0
         then (case closest_date_loop nt context_pos dates None None of
                 Some d \<Rightarrow> if d \<noteq> [] then Some d else context_loop first_page_text dates cs
               | None \<Rightarrow> context_loop first_page_text dates cs)
         else context_loop first_page_text dates cs)"

definition all_potential_dates :: "string list \<Rightarrow> string list \<Rightarrow> string list" where
  "all_potential_dates ner_dates pattern_dates = fold (\<lambda>d acc. append_new acc d) pattern_dates ner_dates"

text \<open>The value of \<open>metadata["effective_date"]\<close> when the function returns.\<close>

definition resolve_effective_date ::
  "date_re \<Rightarrow> string list \<Rightarrow> string list \<Rightarrow> string \<Rightarrow> string" where
  "resolve_effective_date D contexts ner_dates first_page_text =
     (let effective_date0 =
            (case direct_date D first_page_text of Some g \<Rightarrow> strip g | None \<Rightarrow> [])
      in if effective_date0 \<noteq> [] then effective_date0
         else (case context_loop first_page_text
                      (all_potential_dates ner_dates (date_pattern_matches D first_page_text))
                      contexts of
                 Some d \<Rightarrow> d
               | None \<Rightarrow>
                   (case month_day_year D first_page_text of
                      Some m \<Rightarrow> m
                    | None \<Rightarrow> (case ner_dates of d # ds \<Rightarrow> d | [] \<Rightarrow> effective_date0))))"

definition effective_date_of :: "nlp_env \<Rightarrow> date_re \<Rightarrow> string \<Rightarrow> string" where
  "effective_date_of N D first_page_text =
     resolve_effective_date D DATE_CONTEXTS (meta_entities N ''DATE'' first_page_text) first_page_text"

subsection \<open>Parties of the metadata (lines 140 to 169)\<close>

definition meta_looks_like_party :: "string \<Rightarrow> bool" where
  "meta_looks_like_party org =
     (length (py_split org) > 1 \<and>
      (search_any [''Inc.'', ''LLC'', ''Ltd.'', ''Limited'', ''Corp.'', ''Corporation'', ''B.V.'', ''GmbH''] org \<or>
       list_ex (\<lambda>term. py_in term (lower org)) [''company'', ''corporation'', ''technologies'', ''systems'']))"

definition META_STOPLIST :: "string list" where
  "META_STOPLIST = [''article'', ''section'', ''this agreement'', ''hereinafter'']"

text \<open>One round of the loop over \<open>potential_parties\<close>: the inner loop stops at the first
  accepted name that is in a substring relation with the candidate.\<close>

definition filter_step :: "string list \<Rightarrow> string \<Rightarrow> string list" where
  "filter_step filtered_parties p =
     (if list_ex (\<lambda>term. py_in term (lower p)) META_STOPLIST then filtered_parties
      else (case find (\<lambda>existing_party. py_in p existing_party \<or> py_in existing_party p)
                      filtered_parties of
              None \<Rightarrow> filtered_parties @ [p]
            | Some existing_party \<Rightarrow>
                if length p > length existing_party
                then remove1 existing_party filtered_parties @ [p]
                else filtered_parties))"

definition filter_parties :: "string list \<Rightarrow> string list" where
  "filter_parties org_entities =
     take 5 (fold (\<lambda>p acc. filter_step acc p) (filter meta_looks_like_party org_entities) [])"

definition metadata_parties :: "nlp_env \<Rightarrow> string \<Rightarrow> string list" where
  "metadata_parties N first_page_text = filter_parties (meta_entities N ''ORG'' first_page_text)"


section \<open>The fallback orchestrator (process\_with\_fallback in json\_to\_neo4j.py)\<close>

text \<open>
  The metadata is a dictionary: an association list in insertion order whose values are
  \<open>None\<close>, strings, lists or dictionaries. \<open>d.get(k)\<close> is \<open>None\<close> for a missing key, and
  \<open>d[k] = v\<close> replaces the value of a key in place or appends the key.
\<close>

datatype pyval = PyNone | PyStr string | PyList "pyval list" | PyDict "(string \<times> pyval) list"

type_synonym pydict = "(string \<times> pyval) list"

definition truthy :: "pyval \<Rightarrow> bool" where
  "truthy v = (case v of PyNone \<Rightarrow> False | PyStr s \<Rightarrow> s \<noteq> [] | PyList xs \<Rightarrow> xs \<noteq> []
               | PyDict d \<Rightarrow> d \<noteq> [])"

definition py_get :: "pydict \<Rightarrow> string \<Rightarrow> pyval" where
  "py_get d k = (case map_of d k of Some v \<Rightarrow> v | None \<Rightarrow> PyNone)"

definition py_get_default :: "pydict \<Rightarrow> string \<Rightarrow> pyval \<Rightarrow> pyval" where
  "py_get_default d k v0 = (case map_of d k of Some v \<Rightarrow> v | None \<Rightarrow> v0)"

fun dict_set :: "pydict \<Rightarrow> string \<Rightarrow> pyval \<Rightarrow> pydict" where
  "dict_set [] k v = [(k, v)]"
| "dict_set ((k', v') # d) k v = (if k' = k then (k, v) # d else (k', v') # dict_set d k v)"

text \<open>\<open>processed_data\<close>, and its value before any extraction.\<close>

record processed =
  metadata :: pydict
  articles :: "article list"
  parties :: "party list"
  entities :: "pyval list"
  definitions :: "pyval list"
  source :: string

definition initial_data :: processed where
  "initial_data =
     \<lparr>metadata = [], articles = [], parties = [], entities = [], definitions = [],
      source = ''json''\<rparr>"

text \<open>
  What the run reads. The structured file either fails to load (\<open>None\<close>) or gives a
  document. The text file is absent (no path given, or no file there), present but
  failing to be read, or present with its content. The five extraction functions are
  inputs as well: the body of each one returns a value or raises.
\<close>

datatype txt_source = NoTxt | Unreadable | Txt string

record extractors =
  ex_metadata :: "document \<Rightarrow> py_error + pydict"
  ex_articles :: "document \<Rightarrow> py_error + article list"
  ex_parties :: "document \<Rightarrow> py_error + party list"
  txt_metadata :: "string \<Rightarrow> py_error + pydict"
  txt_articles :: "string \<Rightarrow> py_error + article list"

definition has_text :: "page \<Rightarrow> bool" where
  "has_text p = (case page_text p of Some t \<Rightarrow> t \<noteq> [] | None \<Rightarrow> False)"

text \<open>
  A call with positional arguments of a function whose parameters have no defaults: when
  the number of arguments is not the number of parameters, Python raises \<open>TypeError\<close>
  and the body does not run. \<open>extract_contract_metadata\<close> has the four parameters
  \<open>data\<close>, \<open>nlp\<close>, \<open>contractbert_ner\<close> and \<open>contractbert_classifier\<close>;
  \<open>extract_articles\<close> and \<open>extract_parties\<close> have the three parameters \<open>data\<close>, \<open>nlp\<close>
  and \<open>contractbert_ner\<close>.
\<close>

definition py_call :: "nat \<Rightarrow> nat \<Rightarrow> (py_error + 'a) \<Rightarrow> py_error + 'a" where
  "py_call n_params n_args body = (if n_args = n_params then body else Inl TypeError)"

text \<open>Lines 464 to 486: the three extractions and the validation of the articles; an
  exception keeps what was assigned before it. Line 466 is
  \<open>extract_contract_metadata([json_data])\<close>, line 470 is
  \<open>extract_articles([json_data], nlp, contractbert_ner)\<close> and line 474 is
  \<open>extract_parties([json_data])\<close>.\<close>

definition json_extract :: "extractors \<Rightarrow> document \<Rightarrow> processed \<Rightarrow> bool \<times> processed" where
  "json_extract X d pd =
     (case py_call 4 1 (ex_metadata X d) of
        Inl e \<Rightarrow> (False, pd)
      | Inr m \<Rightarrow>
          (let pd1 = pd\<lparr>metadata := m\<rparr> in
           case py_call 3 3 (ex_articles X d) of
             Inl e \<Rightarrow> (False, pd1)
           | Inr a \<Rightarrow>
               (let pd2 = pd1\<lparr>articles := a\<rparr> in
                case py_call 3 1 (ex_parties X d) of
                  Inl e \<Rightarrow> (False, pd2)
                | Inr p \<Rightarrow>
                    (let pd3 = pd2\<lparr>parties := p\<rparr> in
                     if articles pd3 = [] then (False, pd3)
                     else if \<not> list_ex (\<lambda>a. content a \<noteq> []) (articles pd3) then (False, pd3)
                     else (True, pd3)))))"

text \<open>Lines 449 to 489: \<open>json_success\<close> and the data after the structured pass.\<close>

definition json_phase :: "extractors \<Rightarrow> document option \<Rightarrow> processed \<Rightarrow> bool \<times> processed" where
  "json_phase X j pd =
     (case j of
        None \<Rightarrow> (False, pd)
      | Some d \<Rightarrow>
          (case pages d of
             None \<Rightarrow> (False, pd)
           | Some ps \<Rightarrow>
               if ps = [] then (False, pd)
               else if \<not> list_ex has_text ps then (False, pd)
               else json_extract X d pd))"

text \<open>Lines 509 to 513: the handler of the text fallback raises only when no articles
  are held.\<close>

definition fallback_failed :: "processed \<Rightarrow> py_error + processed" where
  "fallback_failed pd = (if articles pd = [] then Inl RuntimeError else Inr pd)"

text \<open>Lines 493 to 513, entered when the text file exists.\<close>

definition txt_fallback :: "extractors \<Rightarrow> txt_source \<Rightarrow> processed \<Rightarrow> py_error + processed" where
  "txt_fallback X txt pd =
     (case txt of
        Txt txt_content \<Rightarrow>
          (case txt_metadata X txt_content of
             Inl e \<Rightarrow> fallback_failed pd
           | Inr m \<Rightarrow>
               (let pd1 = pd\<lparr>metadata := m\<rparr> in
                case txt_articles X txt_content of
                  Inl e \<Rightarrow> fallback_failed pd1
                | Inr a \<Rightarrow> Inr (pd1\<lparr>articles := a, source := ''txt''\<rparr>)))
      | _ \<Rightarrow> fallback_failed pd)"

text \<open>Line 518: the test that opens the hybrid pass.\<close>

definition needs_supplement :: "processed \<Rightarrow> bool" where
  "needs_supplement pd =
     (articles pd = [] \<or> metadata pd = [] \<or> \<not> truthy (py_get (metadata pd) ''title''))"

text \<open>Line 529, and lines 532 to 544: each field is written only when it is empty.\<close>

definition incomplete :: "pydict \<Rightarrow> bool" where
  "incomplete m =
     (\<not> truthy (py_get m ''document_type'') \<or> \<not> truthy (py_get m ''effective_date'') \<or>
      \<not> truthy (py_get m ''title''))"

definition supplement :: "pydict \<Rightarrow> pydict \<Rightarrow> pydict" where
  "supplement m txt_meta =
     (let m1 = (if \<not> truthy (py_get m ''document_type'')
                then dict_set m ''document_type'' (py_get txt_meta ''document_type'') else m);
          m2 = (if \<not> truthy (py_get m1 ''effective_date'')
                then dict_set m1 ''effective_date'' (py_get txt_meta ''effective_date'') else m1);
          m3 = (if \<not> truthy (py_get m2 ''execution_date'')
                then dict_set m2 ''execution_date'' (py_get txt_meta ''execution_date'') else m2)
      in if \<not> truthy (py_get m3 ''title'')
         then dict_set m3 ''title'' (py_get_default txt_meta ''title'' (PyStr ''Untitled Contract''))
         else m3)"

text \<open>Lines 518 to 548, entered when the structured pass succeeded and the text file
  exists; an exception is caught and keeps what was assigned before it.\<close>

definition hybrid :: "extractors \<Rightarrow> txt_source \<Rightarrow> processed \<Rightarrow> processed" where
  "hybrid X txt pd =
     (if needs_supplement pd
      then (case txt of
              Txt txt_content \<Rightarrow>
                (case (if articles pd = []
                       then (case txt_articles X txt_content of
                               Inl e \<Rightarrow> None
                             | Inr a \<Rightarrow> Some (pd\<lparr>articles := a\<rparr>))
                       else Some pd) of
                   None \<Rightarrow> pd
                 | Some pd1 \<Rightarrow>
                     if incomplete (metadata pd1)
                     then (case txt_metadata X txt_content of
                             Inl e \<Rightarrow> pd1
                           | Inr txt_meta \<Rightarrow>
                               pd1\<lparr>metadata := supplement (metadata pd1) txt_meta,
                                   source := ''hybrid''\<rparr>)
                     else pd1\<lparr>source := ''hybrid''\<rparr>)
            | _ \<Rightarrow> pd)
      else pd)"

text \<open>The function: \<open>Inl\<close> when it raises, \<open>Inr\<close> with the data it returns.\<close>

definition process_with_fallback ::
  "extractors \<Rightarrow> document option \<Rightarrow> txt_source \<Rightarrow> py_error + processed" where
  "process_with_fallback X j txt =
     (let (json_success, pd) = json_phase X j initial_data in
      case (if \<not> json_success \<and> txt \<noteq> NoTxt then txt_fallback X txt pd else Inr pd) of
        Inl e \<Rightarrow> Inl e
      | Inr pd1 \<Rightarrow> Inr (if json_success \<and> txt \<noteq> NoTxt then hybrid X txt pd1 else pd1))"

section \<open>Graph write statements (cypher\_generator.py)\<close>

text \<open>
  The statements are built from the fields of the records; a field read with
  \<open>get(key, "")\<close> is the empty string when the key is missing. The single quote and the
  backslash are written by their codes.
\<close>

definition q :: string where
  "q = [CHR 0x27]"

definition escape_quotes :: "string \<Rightarrow> string" where
  "escape_quotes s = replace_char (CHR 0x27) [CHR 0x5C, CHR 0x27] s"

text \<open>Lines 99 to 102: the content of a section is escaped, then cut to 500 characters.\<close>

definition section_content :: "string \<Rightarrow> string" where
  "section_content c =
     (let content = escape_quotes c in
      if length content > 500 then take 497 content @ ''...'' else content)"

record contract_meta =
  cm_title :: string
  cm_effective_date :: string
  cm_document_type :: string

definition contract_cypher :: "contract_meta \<Rightarrow> string \<Rightarrow> string \<Rightarrow> string \<Rightarrow> string" where
  "contract_cypher m document_name document_id timestamp =
     ''CREATE (c:Contract {title: '' @ q @ cm_title m @ q @
     '', effectiveDate: '' @ q @ cm_effective_date m @ q @
     '', documentType: '' @ q @ cm_document_type m @ q @
     '', sourceDocument: '' @ q @ document_name @ q @
     '', documentId: '' @ q @ document_id @ q @
     '', importTimestamp: '' @ q @ timestamp @ q @ '' })''"

definition signatory_cypher :: "nat \<Rightarrow> string \<Rightarrow> string \<Rightarrow> nat \<times> signatory \<Rightarrow> string list" where
  "signatory_cypher idx document_name document_id isg =
     (let sig_id = ''s'' @ str_nat idx @ ''_'' @ str_nat (fst isg) in
      [''CREATE ('' @ sig_id @ '':Person {name: '' @ q @ sig_name (snd isg) @ q @
       '', title: '' @ q @ sig_title (snd isg) @ q @
       '', sourceDocument: '' @ q @ document_name @ q @
       '', documentId: '' @ q @ document_id @ q @ '' })'',
       ''CREATE ('' @ sig_id @ '')-[:REPRESENTS]->(p'' @ str_nat idx @ '')''])"

definition party_cypher :: "string \<Rightarrow> string \<Rightarrow> nat \<times> party \<Rightarrow> string list" where
  "party_cypher document_name document_id ip =
     (let party_id = ''p'' @ str_nat (fst ip) in
      [''CREATE ('' @ party_id @ '':Party {name: '' @ q @ name (snd ip) @ q @
       '', type: '' @ q @ party_type (snd ip) @ q @
       '', sourceDocument: '' @ q @ document_name @ q @
       '', documentId: '' @ q @ document_id @ q @ '' })'',
       ''CREATE ('' @ party_id @ '')-[:PARTY_TO]->(c)'']
      @ concat (map (signatory_cypher (fst ip) document_name document_id)
                    (enumerate 0 (signatories (snd ip)))))"

definition section_cypher :: "nat \<Rightarrow> string \<Rightarrow> string \<Rightarrow> nat \<times> section_rec \<Rightarrow> string list" where
  "section_cypher idx document_name document_id isec =
     (let sec_id = ''s'' @ str_nat idx @ ''_'' @ str_nat (fst isec) in
      [''CREATE ('' @ sec_id @ '':Section {number: '' @ q @ sec_number (snd isec) @ q @
       '', title: '' @ q @ sec_title (snd isec) @ q @
       '', content: '' @ q @ section_content (sec_content (snd isec)) @ q @
       '', sourceDocument: '' @ q @ document_name @ q @
       '', documentId: '' @ q @ document_id @ q @ '' })'',
       ''CREATE (a'' @ str_nat idx @ '')-[:HAS_SECTION]->('' @ sec_id @ '')''])"

definition article_cypher :: "string \<Rightarrow> string \<Rightarrow> nat \<times> article \<Rightarrow> string list" where
  "article_cypher document_name document_id ia =
     (let article_id = ''a'' @ str_nat (fst ia) in
      [''CREATE ('' @ article_id @ '':Article {number: '' @ q @ number (snd ia) @ q @
       '', title: '' @ q @ title (snd ia) @ q @
       '', sourceDocument: '' @ q @ document_name @ q @
       '', documentId: '' @ q @ document_id @ q @ '' })'',
       ''CREATE (c)-[:CONTAINS]->('' @ article_id @ '')'']
      @ concat (map (section_cypher (fst ia) document_name document_id)
                    (enumerate 0 (sections (snd ia)))))"

definition generate_neo4j_cypher ::
  "contract_meta \<Rightarrow> article list \<Rightarrow> party list \<Rightarrow> string \<Rightarrow> string \<Rightarrow> string \<Rightarrow> string list" where
  "generate_neo4j_cypher m arts ps document_name document_id timestamp =
     contract_cypher m document_name document_id timestamp
     # concat (map (party_cypher document_name document_id) (enumerate 0 ps))
     @ concat (map (article_cypher document_name document_id) (enumerate 0 arts))"

record key_provision =
  kp_number :: string
  kp_title :: string
  kp_summary :: string

definition provision_cypher :: "string \<Rightarrow> string \<Rightarrow> nat \<times> key_provision \<Rightarrow> string list" where
  "provision_cypher document_name document_id ikp =
     (let provision_id = ''kp'' @ str_nat (fst ikp) in
      [''CREATE ('' @ provision_id @ '':KeyProvision {number: '' @ q @
         escape_quotes (kp_number (snd ikp)) @ q @
       '', title: '' @ q @ escape_quotes (kp_title (snd ikp)) @ q @
       '', summary: '' @ q @ escape_quotes (kp_summary (snd ikp)) @ q @
       '', sourceDocument: '' @ q @ document_name @ q @
       '', documentId: '' @ q @ document_id @ q @ '' })'',
       ''MATCH (c:Contract {documentId: '' @ q @ document_id @ q @
       ''}) CREATE (c)-[:HAS_KEY_PROVISION]->('' @ provision_id @ '')''])"

definition generate_key_provisions_cypher ::
  "key_provision list \<Rightarrow> string \<Rightarrow> string \<Rightarrow> string list" where
  "generate_key_provisions_cypher key_provisions document_name document_id =
     concat (map (provision_cypher document_name document_id) (enumerate 0 key_provisions))"


section \<open>Notions used to state the properties\<close>

text \<open>A candidate date is near a context phrase found at \<open>context_pos\<close> when its first
  occurrence in the normalized text is after that position and less than 100 characters
  away; a phrase finds a date when it occurs in the text and some candidate is near it;
  the direct pattern fails when it does not match or its group strips to nothing.\<close>

definition near_context :: "string \<Rightarrow> int \<Rightarrow> string \<Rightarrow> bool" where
  "near_context nt context_pos d =
     (py_find nt (lower d) > context_pos \<and> py_find nt (lower d) - context_pos < 100)"

definition finds_date :: "string \<Rightarrow> string list \<Rightarrow> string \<Rightarrow> bool" where
  "finds_date nt dates c = (0 \<le> py_find nt c \<and> list_ex (near_context nt (py_find nt c)) dates)"

definition direct_fails :: "date_re \<Rightarrow> string \<Rightarrow> bool" where
  "direct_fails D first_page_text =
     (case direct_date D first_page_text of None \<Rightarrow> True | Some g \<Rightarrow> strip g = [])"

text \<open>A list of names is dissimilar when no name is in a substring relation with a later
  one.\<close>

fun dissimilar :: "string list \<Rightarrow> bool" where
  "dissimilar [] = True"
| "dissimilar (x # xs) = (list_all (\<lambda>y. \<not> similar x y) xs \<and> dissimilar xs)"

text \<open>In an escaped string every quote character comes directly after a backslash.\<close>

fun escaped_after :: "char \<Rightarrow> string \<Rightarrow> bool" where
  "escaped_after prev [] = True"
| "escaped_after prev (c # cs) =
     ((if c = CHR 0x27 then prev = CHR 0x5C else True) \<and> escaped_after c cs)"

definition quotes_escaped :: "string \<Rightarrow> bool" where
  "quotes_escaped s = escaped_after (CHR '' '') s"

text \<open>The candidates of one document in \<open>extract_articles\<close>: the articles of the entity
  pass, or, when there are none, those of the sentence pass.\<close>

definition doc_candidates :: "nlp_env \<Rightarrow> re_env \<Rightarrow> string \<Rightarrow> article list" where
  "doc_candidates N R full_text =
     (let found = bert_articles R (structure_entities N R full_text)
      in if found = [] then spacy_articles N R full_text [] else found)"

text \<open>The article at index \<open>idx\<close> has an empty span when its start is found and its text
  is empty; \<open>spans_found\<close> says that no article of the list has an empty span.\<close>

definition empty_span :: "re_env \<Rightarrow> string \<Rightarrow> article list \<Rightarrow> nat \<Rightarrow> bool" where
  "empty_span R full_text arts idx =
     (0 \<le> article_start_idx R full_text arts idx \<and> article_text_of R full_text arts idx = [])"

definition spans_found :: "re_env \<Rightarrow> string \<Rightarrow> article list \<Rightarrow> bool" where
  "spans_found R full_text arts =
     (\<not> list_ex (empty_span R full_text arts) [0 ..< length arts])"

section \<open>Concrete inputs for the examples\<close>

text \<open>An annotation service whose entity model returns the same entities for every chunk,
  whose sentence splitter returns the chunk as one sentence, and which finds no entities
  and no noun chunks of its own.\<close>

definition ner_const :: "ner_entity list \<Rightarrow> nlp_env" where
  "ner_const es = \<lparr>contractbert_ner = (\<lambda>chunk. es), nlp_sents = (\<lambda>chunk. [chunk]),
                    nlp_ents = (\<lambda>chunk. []), nlp_noun_chunks = (\<lambda>chunk. [])\<rparr>"

definition no_party_re :: party_re where
  "no_party_re = \<lparr>between_re = (\<lambda>s. None), sig_finditer = (\<lambda>k s. [])\<rparr>"

definition one_page :: "string \<Rightarrow> document" where
  "one_page t = \<lparr>pages = Some [\<lparr>page_text = Some t\<rparr>]\<rparr>"

definition org :: "string \<Rightarrow> ner_entity" where
  "org w = \<lparr>entity_group = ''ORG'', word = w\<rparr>"

text \<open>The regular expressions of the effective date on the page "Dated as of 5 May 2025"
  (no literal, no "Month DD, YYYY") and on the page "Effective Date: April 29, 2025".\<close>

definition dated_re :: date_re where
  "dated_re = \<lparr>direct_date = (\<lambda>t. None), date_pattern_matches = (\<lambda>t. [''5 May 2025'']),
               month_day_year = (\<lambda>t. None)\<rparr>"

definition literal_re :: date_re where
  "literal_re = \<lparr>direct_date = (\<lambda>t. Some ''April 29, 2025''),
                 date_pattern_matches = (\<lambda>t. [''April 29, 2025'']),
                 month_day_year = (\<lambda>t. Some ''April 29, 2025'')\<rparr>"

text \<open>
  Extraction results for the orchestrator. In \<open>text_x_extractors\<close> the structured
  extractions raise and the text extractions return what the text "x" gives: the title x
  (its first line), the type Unknown, no dates, no parties and no articles. In
  \<open>may_text_extractors\<close> the text extractions return what the text
  "Effective May 1, 2025" gives: this line as the title, the effective date May 1, 2025
  and no articles.
\<close>

definition text_x_extractors :: extractors where
  "text_x_extractors =
     \<lparr>ex_metadata = (\<lambda>d. Inl TypeError), ex_articles = (\<lambda>d. Inl TypeError),
      ex_parties = (\<lambda>d. Inl TypeError),
      txt_metadata = (\<lambda>c. Inr [(''title'', PyStr ''x''), (''document_type'', PyStr ''Unknown''),
                                (''execution_date'', PyStr []), (''effective_date'', PyStr []),
                                (''parties'', PyList [])]),
      txt_articles = (\<lambda>c. Inr [])\<rparr>"

definition may_text_meta :: pydict where
  "may_text_meta =
     [(''title'', PyStr ''Effective May 1, 2025''), (''document_type'', PyStr ''Unknown''),
      (''execution_date'', PyStr []), (''effective_date'', PyStr ''May 1, 2025''),
      (''parties'', PyList [])]"

definition may_text_extractors :: extractors where
  "may_text_extractors = text_x_extractors\<lparr>txt_metadata := (\<lambda>c. Inr may_text_meta)\<rparr>"

definition may_text :: txt_source where
  "may_text = Txt ''Effective May 1, 2025''"

definition scope_doc :: "document option" where
  "scope_doc = Some (one_page ''scope'')"

text \<open>The data held at the hybrid pass after a structured pass that found the title T, no
  effective date and one article with content.\<close>

definition scope_article :: article where
  "scope_article =
     \<lparr>number = ''1'', numeric_id = ''1'', title = ''SCOPE'', content = ''The scope.'',
      sections = []\<rparr>"

definition titled_data :: processed where
  "titled_data =
     initial_data\<lparr>metadata := [(''title'', PyStr ''T''), (''effective_date'', PyStr []),
                               (''parties'', PyList []), (''document_type'', PyStr ''Contract'')],
                   articles := [scope_article]\<rparr>"

text \<open>A key provision whose title has 501 characters.\<close>

definition long_title_provision :: key_provision where
  "long_title_provision =
     \<lparr>kp_number = ''1'', kp_title = replicate 501 (CHR ''A''), kp_summary = []\<rparr>"

text \<open>Regular expressions that match nowhere, as on the text "hello world.".\<close>

definition quiet_re :: re_env where
  "quiet_re = \<lparr>art_search = (\<lambda>i k s. None), art_match_i = (\<lambda>k s. False),
               header_match = (\<lambda>s. False), art_finditer = (\<lambda>k s. []),
               sec_finditer = (\<lambda>k s. []),
               article_pattern_start = (\<lambda>n t s. None),
               next_art_pattern_start = (\<lambda>n t s. None),
               section_pattern_span = (\<lambda>n t s. None),
               sec_search = (\<lambda>k s. None),
               section_shape = (\<lambda>s. False), bert_section_shape = (\<lambda>s. False)\<rparr>"

text \<open>On the text "HELLO WORLD" no article pattern and no section shape matches, and the
  pattern of the article numbered 1 with the title HELLO WORLD matches at offset 0.\<close>

definition upper_re :: re_env where
  "upper_re =
     quiet_re\<lparr>article_pattern_start :=
                 (\<lambda>n t s. if n = ''1'' \<and> t = ''HELLO WORLD'' \<and> s = ''HELLO WORLD''
                            then Some 0 else None)\<rparr>"

text \<open>
  The page "ARTICLE 1 - A" with the entity model reporting the organization
  "ARTICLE 1 - A" twice. The second article pattern matches the word with the groups 1
  and A, from offset 0 to offset 13; the pattern of the article (number 1, title A) and
  the pattern of the next article, which is the same, both match the page at offset 0.
\<close>

definition dup_nlp :: nlp_env where
  "dup_nlp = ner_const [org ''ARTICLE 1 - A'', org ''ARTICLE 1 - A'']"

definition dup_re :: re_env where
  "dup_re =
     quiet_re\<lparr>art_search :=
                 (\<lambda>i k s. if k = 1 \<and> s = ''ARTICLE 1 - A''
                            then Some \<lparr>group1 = ''1'', group2 = Some ''A'', mstart = 0, mend = 13\<rparr>
                            else None),
               art_match_i := (\<lambda>k s. k = 1 \<and> s = ''ARTICLE 1 - A''),
               article_pattern_start :=
                 (\<lambda>n t s. if n = ''1'' \<and> t = ''A'' \<and> s = ''ARTICLE 1 - A'' then Some 0 else None),
               next_art_pattern_start :=
                 (\<lambda>n t s. if n = ''1'' \<and> t = ''A'' \<and> s = ''ARTICLE 1 - A'' then Some 0 else None)\<rparr>"

text \<open>
  A page of two lines, "ARTICLE 2 - TERM" and "ARTICLE 1 - SCOPE", with the entity model
  reporting the two lines as organizations. The second article pattern matches the first
  line with the groups 2 and TERM (to offset 16), the second line with the groups 1 and
  SCOPE (to offset 17), and the page at its first line. The pattern of the article 1,
  SCOPE first matches the page at offset 17, that of the article 2, TERM at offset 0 and
  nowhere in the second line; no section shape matches.
\<close>

definition terms_text :: string where
  "terms_text = ''ARTICLE 2 - TERM'' @ [CHR 0x0A] @ ''ARTICLE 1 - SCOPE''"

definition terms_nlp :: nlp_env where
  "terms_nlp = ner_const [org ''ARTICLE 2 - TERM'', org ''ARTICLE 1 - SCOPE'']"

definition terms_re :: re_env where
  "terms_re =
     quiet_re\<lparr>art_search :=
                 (\<lambda>i k s. if k = 1 \<and> (s = ''ARTICLE 2 - TERM'' \<or> s = terms_text)
                            then Some \<lparr>group1 = ''2'', group2 = Some ''TERM'', mstart = 0, mend = 16\<rparr>
                            else if k = 1 \<and> s = ''ARTICLE 1 - SCOPE''
                            then Some \<lparr>group1 = ''1'', group2 = Some ''SCOPE'', mstart = 0, mend = 17\<rparr>
                            else None),
               art_match_i := (\<lambda>k s. k = 1 \<and> (s = ''ARTICLE 2 - TERM'' \<or> s = ''ARTICLE 1 - SCOPE'')),
               article_pattern_start :=
                 (\<lambda>n t s. if n = ''1'' \<and> t = ''SCOPE'' \<and> s = terms_text then Some 17
                            else if n = ''2'' \<and> t = ''TERM'' \<and> s = terms_text then Some 0
                            else None)\<rparr>"

text \<open>A first page naming Acme Inc. and Acme Inc. Holdings, and one naming Acme Inc., Beta
  Corp. and Acme Inc. Beta Corp., with the entity model reporting these organizations.\<close>

definition holdings_text :: string where
  "holdings_text = ''Acme Inc. and Acme Inc. Holdings agree.''"

definition holdings_nlp :: nlp_env where
  "holdings_nlp = ner_const [org ''Acme Inc.'', org ''Acme Inc. Holdings'']"

definition merged_text :: string where
  "merged_text = ''Acme Inc., Beta Corp. and Acme Inc. Beta Corp.''"

definition merged_nlp :: nlp_env where
  "merged_nlp = ner_const [org ''Acme Inc.'', org ''Beta Corp.'', org ''Acme Inc. Beta Corp.'']"

text \<open>
  A document of three pages whose last two pages each hold the signature block
  "For: Acme Corporation Name: John Smith Title: CEO;". On the text of the two pages the
  first signature pattern matches twice, each time with the groups "Acme Corporation ",
  "John Smith " and "CEO"; the second pattern, which needs a line "By:", does not match.
\<close>

definition sig_block :: string where
  "sig_block = ''For: Acme Corporation Name: John Smith Title: CEO;''"

definition sig_pages_text :: string where
  "sig_pages_text = sig_block @ [CHR 0x0A] @ sig_block"

definition signed_pages :: "page list" where
  "signed_pages =
     [\<lparr>page_text = Some ''Acme Corporation''\<rparr>, \<lparr>page_text = Some sig_block\<rparr>,
      \<lparr>page_text = Some sig_block\<rparr>]"

definition signed_doc :: document where
  "signed_doc = \<lparr>pages = Some signed_pages\<rparr>"

definition signed_text :: string where
  "signed_text = ''Acme Corporation'' @ [CHR 0x0A] @ sig_block @ [CHR 0x0A] @ sig_block"

definition signed_nlp :: nlp_env where
  "signed_nlp = ner_const [org ''Acme Corporation'']"

definition signed_re :: party_re where
  "signed_re =
     \<lparr>between_re = (\<lambda>s. None),
      sig_finditer = (\<lambda>k s. if k = 0 \<and> s = sig_pages_text
                             then [[''Acme Corporation '', ''John Smith '', ''CEO''],
                                   [''Acme Corporation '', ''John Smith '', ''CEO'']]
                             else [])\<rparr>"

definition john_ceo :: signatory where
  "john_ceo = \<lparr>sig_name = ''John Smith'', sig_title = ''CEO''\<rparr>"

section \<open>Chunks of short texts\<close>

lemma py_range_step_one: "0 < n \<Longrightarrow> n \<le> step \<Longrightarrow> py_range_step n step = [0]"
proof -
  assume a: "0 < n" "n \<le> step"
  have e: "n + step - 1 = (n - 1) + step" using a by arith
  have z: "(n - 1) div step = 0" using a by simp
  have "((n - 1) + step) div step = (n - 1) div step + 1"
    using a by (intro div_add_self2) simp
  then have "(n + step - 1) div step = 1"
    using e z by presburger
  then show ?thesis by (simp add: py_range_step_def)
qed

lemma chunks_one:
  "s \<noteq> [] \<Longrightarrow> length s \<le> sz \<Longrightarrow> length s \<le> limit \<Longrightarrow> chunks sz limit s = [s]"
  by (simp add: chunks_def py_range_step_one min_def)

lemma chunks_nil: "chunks sz limit [] = []"
  by (cases sz) (simp_all add: chunks_def py_range_step_def)

section \<open>The section phase of extract\_articles\<close>

lemma one_page_full_text: "full_text_of (one_page s) = Inr s"
  by (simp add: full_text_of_def one_page_def)

lemma word_org: "word (org w) = w"
  by (simp add: org_def)

lemma article_body_ids:
  "number (article_body N R t c a) = number a \<and>
   numeric_id (article_body N R t c a) = numeric_id a \<and>
   title (article_body N R t c a) = title a"
  by (simp add: article_body_def Let_def)

lemma section_step_ids:
  "section_step N R ft arts idx = Inr a \<Longrightarrow>
   number a = number (arts ! idx) \<and> numeric_id a = numeric_id (arts ! idx) \<and>
   title a = title (arts ! idx)"
  by (auto simp: section_step_def Let_def article_body_ids split: if_splits)

lemma section_step_raises:
  "section_step N R ft arts idx = Inl e \<longleftrightarrow> e = ValueError \<and> empty_span R ft arts idx"
  by (auto simp: section_step_def empty_span_def Let_def min_def split: if_splits)

lemma section_loop_ids:
  "section_loop N R ft arts idxs = Inr r \<Longrightarrow>
   map number r = map (\<lambda>i. number (arts ! i)) idxs \<and>
   map numeric_id r = map (\<lambda>i. numeric_id (arts ! i)) idxs \<and>
   map title r = map (\<lambda>i. title (arts ! i)) idxs"
  by (induction idxs arbitrary: r) (auto split: sum.splits dest: section_step_ids)

lemma section_loop_raises:
  "section_loop N R ft arts idxs = Inl e \<longleftrightarrow>
     e = ValueError \<and> list_ex (empty_span R ft arts) idxs"
proof (induction idxs)
  case Nil
  then show ?case by simp
next
  case (Cons i idxs)
  show ?case
  proof (cases "section_step N R ft arts i")
    case (Inl e')
    then show ?thesis using section_step_raises[of N R ft arts i e'] by auto
  next
    case (Inr a)
    then have "\<not> empty_span R ft arts i"
      using section_step_raises[of N R ft arts i ValueError] by auto
    then show ?thesis using Inr Cons.IH by (auto split: sum.splits)
  qed
qed

lemma map_nth_upt: "map (\<lambda>i. f (xs ! i)) [0 ..< length xs] = map f xs"
proof -
  have "map f xs = map f (map (\<lambda>i. xs ! i) [0 ..< length xs])" by (simp only: map_nth)
  also have "\<dots> = map (\<lambda>i. f (xs ! i)) [0 ..< length xs]" by (simp only: map_map comp_def)
  finally show ?thesis by simp
qed

lemma section_phase_ids:
  assumes "section_phase N R ft arts = Inr r"
  shows "map number r = map number arts \<and> map numeric_id r = map numeric_id arts \<and>
         map title r = map title arts \<and> length r = length arts"
proof -
  have m: "map number r = map number arts \<and> map numeric_id r = map numeric_id arts \<and>
      map title r = map title arts"
    using section_loop_ids[of N R ft arts "[0 ..< length arts]" r] assms
    by (simp add: section_phase_def map_nth_upt)
  have "length r = length arts" using m map_eq_imp_length_eq by blast
  then show ?thesis using m by simp
qed

lemma section_phase_raises:
  "\<not> spans_found R ft arts \<Longrightarrow> section_phase N R ft arts = Inl ValueError"
  by (simp add: spans_found_def section_phase_def section_loop_raises)

lemma section_phase_returns:
  assumes "spans_found R ft arts"
  shows "\<exists>r. section_phase N R ft arts = Inr r"
proof (cases "section_phase N R ft arts")
  case (Inl e)
  then have "list_ex (empty_span R ft arts) [0 ..< length arts]"
    by (simp add: section_phase_def section_loop_raises)
  then show ?thesis using assms by (simp add: spans_found_def)
next
  case (Inr r)
  then show ?thesis by simp
qed

lemma header_sections_shapeless:
  "(\<And>s. \<not> section_shape R s) \<Longrightarrow> header_sections N R cs = []"
  by (simp add: header_sections_def)

lemma bert_sections_shapeless:
  assumes "\<And>w. \<not> bert_section_shape R w"
  shows "bert_sections N R t = []"
proof -
  have "fold (bert_word_step R) ws [] = []" for ws
    by (induction ws) (simp_all add: bert_word_step_def assms)
  then show ?thesis by (simp add: bert_sections_def)
qed

lemma article_body_shapeless:
  assumes "\<And>s. \<not> section_shape R s" and "\<And>w. \<not> bert_section_shape R w"
    and "sections a = []"
  shows "article_body N R t c a =
           a\<lparr>content := strip (drop (content_start R t) t), sections := []\<rparr>"
  by (simp add: article_body_def Let_def header_sections_shapeless[OF assms(1)]
      bert_sections_shapeless[OF assms(2)] assms(3))

lemma section_step_shapeless:
  assumes "\<And>s. \<not> section_shape R s" and "\<And>w. \<not> bert_section_shape R w"
    and "sections (arts ! idx) = []"
    and "0 \<le> article_start_idx R ft arts idx"
    and "article_text_of R ft arts idx = t" and "t \<noteq> []"
  shows "section_step N R ft arts idx =
           Inr ((arts ! idx)\<lparr>content := strip (drop (content_start R t) t), sections := []\<rparr>)"
  using assms(4,5,6)
  by (simp add: section_step_def Let_def min_def
      article_body_shapeless[OF assms(1) assms(2) assms(3)])

lemma section_phase_nil: "section_phase N R ft [] = Inr []"
  by (simp add: section_phase_def)

lemma extract_articles_single:
  "full_text_of d = Inr ft \<Longrightarrow>
   extract_articles N R [d] = section_phase N R ft (sort_articles (doc_candidates N R ft))"
  by (simp add: extract_articles_def extract_articles_doc_def doc_candidates_def Let_def
      split: sum.splits)

section \<open>Ordering of articles\<close>

lemma those_map_Some:
  "those (map f xs) = Some ks \<longleftrightarrow> (\<forall>x\<in>set xs. f x \<noteq> None) \<and> ks = map (the \<circ> f) xs"
  by (induction xs arbitrary: ks) (auto split: option.splits)

lemma those_map_None: "those (map f xs) = None \<longleftrightarrow> (\<exists>x\<in>set xs. f x = None)"
  by (induction xs) (auto split: option.splits)

lemma insort_key_decorate:
  "insort_key fst (g x, x) (map (\<lambda>y. (g y, y)) ys) = map (\<lambda>y. (g y, y)) (insort_key g x ys)"
  by (induction ys) auto

lemma sort_key_decorate: "map snd (sort_key fst (zip (map g xs) xs)) = sort_key g xs"
proof -
  have z: "zip (map g ys) ys = map (\<lambda>y. (g y, y)) ys" for ys
    by (induction ys) auto
  have "sort_key fst (map (\<lambda>y. (g y, y)) xs) = map (\<lambda>y. (g y, y)) (sort_key g xs)"
    by (induction xs) (auto simp: insort_key_decorate)
  then show ?thesis by (simp add: z comp_def)
qed

lemma sort_articles_all_parse:
  assumes "\<forall>a\<in>set arts. py_int (numeric_id a) \<noteq> None"
  shows "sort_articles arts = sort_key int_key arts"
proof -
  have m: "map (the \<circ> (\<lambda>a. py_int (numeric_id a))) arts = map int_key arts"
    using assms by (auto simp: int_key_def)
  have "those (map (\<lambda>a. py_int (numeric_id a)) arts) = Some (map int_key arts)"
    using assms m by (simp add: those_map_Some)
  then show ?thesis
    by (cases "arts = []") (simp_all add: sort_articles_def sort_key_decorate)
qed

lemma sort_articles_some_fail:
  assumes "\<exists>a\<in>set arts. py_int (numeric_id a) = None"
  shows "sort_articles arts = arts"
  using assms by (simp add: sort_articles_def those_map_None[THEN iffD2])

lemma extract_articles_ids:
  assumes "full_text_of d = Inr ft"
  shows "if spans_found R ft (sort_articles (doc_candidates N R ft))
         then \<exists>r. extract_articles N R [d] = Inr r \<and>
                  map numeric_id r = map numeric_id (sort_articles (doc_candidates N R ft))
         else extract_articles N R [d] = Inl ValueError"
proof (cases "spans_found R ft (sort_articles (doc_candidates N R ft))")
  case True
  then obtain r where r: "section_phase N R ft (sort_articles (doc_candidates N R ft)) = Inr r"
    using section_phase_returns by blast
  then show ?thesis
    using True section_phase_ids[OF r] by (simp add: extract_articles_single[OF assms])
next
  case False
  then show ?thesis
    by (simp add: extract_articles_single[OF assms] section_phase_raises)
qed

text \<open>
  Claim C5. When every \<open>numeric_id\<close> parses as an integer, the sorted list is ascending in
  the integer keys, is a rearrangement of the candidates, and keeps articles with equal
  keys in their order of discovery. When some \<open>numeric_id\<close> does not parse, the list is
  returned exactly as it was. For a document whose pages can be read, \<open>extract_articles\<close>
  returns when no article has an empty span, and then the list it returns has the
  \<open>numeric_id\<close>s of the candidates in this order; with an empty span it raises
  \<open>ValueError\<close>.
\<close>

theorem sort_articles_numeric_order:
  "((\<forall>a\<in>set arts. py_int (numeric_id a) \<noteq> None) \<longrightarrow>
      sorted (map int_key (sort_articles arts)) \<and>
      mset (sort_articles arts) = mset arts \<and>
      (\<forall>k. filter (\<lambda>a. int_key a = k) (sort_articles arts) = filter (\<lambda>a. int_key a = k) arts)) \<and>
   ((\<exists>a\<in>set arts. py_int (numeric_id a) = None) \<longrightarrow> sort_articles arts = arts) \<and>
   (\<forall>ft. full_text_of d = Inr ft \<longrightarrow>
      (if spans_found R ft (sort_articles (doc_candidates N R ft))
       then \<exists>r. extract_articles N R [d] = Inr r \<and>
                map numeric_id r = map numeric_id (sort_articles (doc_candidates N R ft))
       else extract_articles N R [d] = Inl ValueError))"
proof (intro conjI impI)
  assume a: "\<forall>a\<in>set arts. py_int (numeric_id a) \<noteq> None"
  have e: "sort_articles arts = sort_key int_key arts"
    using a by (rule sort_articles_all_parse)
  show "sorted (map int_key (sort_articles arts))" by (simp add: e)
  show "mset (sort_articles arts) = mset arts" by (simp add: e)
  show "\<forall>k. filter (\<lambda>a. int_key a = k) (sort_articles arts) = filter (\<lambda>a. int_key a = k) arts"
    by (simp add: e sort_key_stable)
next
  assume "\<exists>a\<in>set arts. py_int (numeric_id a) = None"
  then show "sort_articles arts = arts" by (rule sort_articles_some_fail)
next
  show "\<forall>ft. full_text_of d = Inr ft \<longrightarrow>
      (if spans_found R ft (sort_articles (doc_candidates N R ft))
       then \<exists>r. extract_articles N R [d] = Inr r \<and>
                map numeric_id r = map numeric_id (sort_articles (doc_candidates N R ft))
       else extract_articles N R [d] = Inl ValueError)"
    using extract_articles_ids by blast
qed

lemma numeric_example_parses:
  "list_all (\<lambda>a. py_int (numeric_id a) \<noteq> None)
     [mk_art ''2'' ''B'', mk_art ''1'' ''A'', mk_art ''10'' ''C'']"
  by code_simp

lemma numeric_example_sorted:
  "map numeric_id (sort_articles [mk_art ''2'' ''B'', mk_art ''1'' ''A'', mk_art ''10'' ''C''])
     = [''1'', ''2'', ''10'']"
  by code_simp

lemma preamble_example_fails:
  "list_ex (\<lambda>a. py_int (numeric_id a) = None) [mk_art ''I'' ''A'', mk_art ''PREAMBLE'' ''B'']"
  by code_simp

lemma terms_chunk_bert: "chunks 450 50000 terms_text = [terms_text]"
  by (rule chunks_one) (simp_all add: terms_text_def)

lemma terms_entities:
  "is_article_entity terms_re (org ''ARTICLE 2 - TERM'') \<and>
   is_article_entity terms_re (org ''ARTICLE 1 - SCOPE'')"
  by code_simp

lemma terms_articles:
  "bert_articles terms_re [''ARTICLE 2 - TERM'', ''ARTICLE 1 - SCOPE''] =
     [mk_art ''2'' ''TERM'', mk_art ''1'' ''SCOPE'']"
  by code_simp

lemma terms_candidates:
  "doc_candidates terms_nlp terms_re terms_text = [mk_art ''2'' ''TERM'', mk_art ''1'' ''SCOPE'']"
  unfolding doc_candidates_def structure_entities_def terms_chunk_bert
  by (simp add: terms_nlp_def ner_const_def terms_entities word_org terms_articles)

lemma terms_sorted:
  "sort_articles [mk_art ''2'' ''TERM'', mk_art ''1'' ''SCOPE''] =
     [mk_art ''1'' ''SCOPE'', mk_art ''2'' ''TERM'']"
  by code_simp

lemma terms_spans:
  "spans_found terms_re terms_text [mk_art ''1'' ''SCOPE'', mk_art ''2'' ''TERM'']"
  by code_simp

lemma terms_shapes:
  "\<not> section_shape terms_re s \<and> \<not> bert_section_shape terms_re s"
  by (simp add: terms_re_def quiet_re_def)

lemma terms_article_texts:
  "0 \<le> article_start_idx terms_re terms_text [mk_art ''1'' ''SCOPE'', mk_art ''2'' ''TERM''] 0 \<and>
   article_text_of terms_re terms_text [mk_art ''1'' ''SCOPE'', mk_art ''2'' ''TERM''] 0 = ''ARTICLE 1 - SCOPE'' \<and>
   strip (drop (content_start terms_re ''ARTICLE 1 - SCOPE'') ''ARTICLE 1 - SCOPE'') = [] \<and>
   0 \<le> article_start_idx terms_re terms_text [mk_art ''1'' ''SCOPE'', mk_art ''2'' ''TERM''] (Suc 0) \<and>
   article_text_of terms_re terms_text [mk_art ''1'' ''SCOPE'', mk_art ''2'' ''TERM''] (Suc 0) = terms_text \<and>
   strip (drop (content_start terms_re terms_text) terms_text) = ''ARTICLE 1 - SCOPE''"
  by code_simp

lemma terms_step1:
  "section_step terms_nlp terms_re terms_text [mk_art ''1'' ''SCOPE'', mk_art ''2'' ''TERM''] 0 =
     Inr \<lparr>number = ''1'', numeric_id = ''1'', title = ''SCOPE'', content = [], sections = []\<rparr>"
proof -
  have "section_step terms_nlp terms_re terms_text [mk_art ''1'' ''SCOPE'', mk_art ''2'' ''TERM''] 0 =
      Inr (([mk_art ''1'' ''SCOPE'', mk_art ''2'' ''TERM''] ! 0)
             \<lparr>content := strip (drop (content_start terms_re ''ARTICLE 1 - SCOPE'') ''ARTICLE 1 - SCOPE''),
              sections := []\<rparr>)"
    using terms_shapes terms_article_texts
    by (intro section_step_shapeless) (simp_all add: mk_art_def)
  then show ?thesis by (simp add: terms_article_texts mk_art_def)
qed

lemma terms_step2:
  "section_step terms_nlp terms_re terms_text [mk_art ''1'' ''SCOPE'', mk_art ''2'' ''TERM''] (Suc 0) =
     Inr \<lparr>number = ''2'', numeric_id = ''2'', title = ''TERM'', content = ''ARTICLE 1 - SCOPE'',
          sections = []\<rparr>"
proof -
  have "section_step terms_nlp terms_re terms_text [mk_art ''1'' ''SCOPE'', mk_art ''2'' ''TERM''] (Suc 0) =
      Inr (([mk_art ''1'' ''SCOPE'', mk_art ''2'' ''TERM''] ! (Suc 0))
             \<lparr>content := strip (drop (content_start terms_re terms_text) terms_text),
              sections := []\<rparr>)"
    using terms_shapes terms_article_texts
    by (intro section_step_shapeless) (simp_all add: mk_art_def terms_text_def)
  then show ?thesis by (simp add: terms_article_texts mk_art_def)
qed

lemma terms_run:
  "extract_articles terms_nlp terms_re [one_page terms_text] =
     Inr [\<lparr>number = ''1'', numeric_id = ''1'', title = ''SCOPE'', content = [], sections = []\<rparr>,
          \<lparr>number = ''2'', numeric_id = ''2'', title = ''TERM'', content = ''ARTICLE 1 - SCOPE'',
           sections = []\<rparr>]"
  unfolding extract_articles_single[OF one_page_full_text] terms_candidates terms_sorted
    section_phase_def
  by (simp add: terms_step1 terms_step2)

text \<open>The two examples of the claim: ids 2, 1, 10 come out as 1, 2, 10, and the ids I,
  PREAMBLE stay in place. And a run of \<open>extract_articles\<close>: on the page with the lines
  "ARTICLE 2 - TERM" and "ARTICLE 1 - SCOPE" the candidates are found with the ids 2, 1,
  no span is empty, and the articles are returned with the ids 1, 2.\<close>

theorem sort_articles_numeric_order_witness:
  "list_all (\<lambda>a. py_int (numeric_id a) \<noteq> None)
     [mk_art ''2'' ''B'', mk_art ''1'' ''A'', mk_art ''10'' ''C''] \<and>
   map numeric_id (sort_articles [mk_art ''2'' ''B'', mk_art ''1'' ''A'', mk_art ''10'' ''C''])
     = [''1'', ''2'', ''10''] \<and>
   sorted (map int_key (sort_articles [mk_art ''2'' ''B'', mk_art ''1'' ''A'', mk_art ''10'' ''C''])) \<and>
   list_ex (\<lambda>a. py_int (numeric_id a) = None) [mk_art ''I'' ''A'', mk_art ''PREAMBLE'' ''B''] \<and>
   sort_articles [mk_art ''I'' ''A'', mk_art ''PREAMBLE'' ''B'']
     = [mk_art ''I'' ''A'', mk_art ''PREAMBLE'' ''B''] \<and>
   full_text_of (one_page terms_text) = Inr terms_text \<and>
   map numeric_id (doc_candidates terms_nlp terms_re terms_text) = [''2'', ''1''] \<and>
   spans_found terms_re terms_text (sort_articles (doc_candidates terms_nlp terms_re terms_text)) \<and>
   \<not> isl (extract_articles terms_nlp terms_re [one_page terms_text]) \<and>
   map numeric_id (projr (extract_articles terms_nlp terms_re [one_page terms_text])) = [''1'', ''2''] \<and>
   extract_articles terms_nlp terms_re [one_page terms_text] =
     Inr [\<lparr>number = ''1'', numeric_id = ''1'', title = ''SCOPE'', content = [], sections = []\<rparr>,
          \<lparr>number = ''2'', numeric_id = ''2'', title = ''TERM'', content = ''ARTICLE 1 - SCOPE'',
           sections = []\<rparr>]"
proof -
  let ?xs = "[mk_art ''2'' ''B'', mk_art ''1'' ''A'', mk_art ''10'' ''C'']"
  let ?ys = "[mk_art ''I'' ''A'', mk_art ''PREAMBLE'' ''B'']"
  have p: "list_all (\<lambda>a. py_int (numeric_id a) \<noteq> None) ?xs"
    by (rule numeric_example_parses)
  have q: "list_ex (\<lambda>a. py_int (numeric_id a) = None) ?ys"
    by (rule preamble_example_fails)
  have p': "\<forall>a\<in>set ?xs. py_int (numeric_id a) \<noteq> None"
    using p by (simp only: list_all_iff)
  have q': "\<exists>a\<in>set ?ys. py_int (numeric_id a) = None"
    using q by (simp only: list_ex_iff)
  have s: "sorted (map int_key (sort_articles ?xs))"
    using sort_articles_numeric_order [of ?xs] p' by blast
  have u: "sort_articles ?ys = ?ys"
    using sort_articles_numeric_order [of ?ys] q' by blast
  have f: "full_text_of (one_page terms_text) = Inr terms_text" by (rule one_page_full_text)
  have c: "map numeric_id (doc_candidates terms_nlp terms_re terms_text) = [''2'', ''1'']"
    by (simp add: terms_candidates mk_art_def)
  have sp: "spans_found terms_re terms_text
      (sort_articles (doc_candidates terms_nlp terms_re terms_text))"
    by (simp add: terms_candidates terms_sorted terms_spans)
  have "\<exists>r. extract_articles terms_nlp terms_re [one_page terms_text] = Inr r \<and>
      map numeric_id r = map numeric_id (sort_articles (doc_candidates terms_nlp terms_re terms_text))"
    using sort_articles_numeric_order [of ?xs "one_page terms_text" terms_re terms_nlp] f sp
    by presburger
  then obtain r where r: "extract_articles terms_nlp terms_re [one_page terms_text] = Inr r"
    and i: "map numeric_id r = map numeric_id (sort_articles (doc_candidates terms_nlp terms_re terms_text))"
    by blast
  have i': "map numeric_id r = [''1'', ''2'']"
    using i unfolding terms_candidates terms_sorted by (simp add: mk_art_def)
  have n: "\<not> isl (extract_articles terms_nlp terms_re [one_page terms_text])"
    by (simp add: r)
  have i'': "map numeric_id (projr (extract_articles terms_nlp terms_re [one_page terms_text])) =
      [''1'', ''2'']"
    using i' by (simp add: r)
  show ?thesis
    using p q s u numeric_example_sorted f c sp n i'' terms_run by (simp only: simp_thms)
qed

section \<open>The effective date\<close>

lemma closest_inv:
  assumes "(cl = None \<and> md = None) \<or>
           (\<exists>c. cl = Some c \<and> md = Some (py_find nt (lower c) - cp) \<and> near_context nt cp c)"
  shows "case closest_date_loop nt cp ds cl md of
           None \<Rightarrow> cl = None \<and> (\<forall>d\<in>set ds. \<not> near_context nt cp d)
         | Some r \<Rightarrow> near_context nt cp r \<and> (r \<in> set ds \<or> cl = Some r) \<and>
               (\<forall>d\<in>set ds. near_context nt cp d \<longrightarrow> py_find nt (lower r) \<le> py_find nt (lower d)) \<and>
               (\<forall>c. cl = Some c \<longrightarrow> py_find nt (lower r) \<le> py_find nt (lower c))"
  using assms
proof (induction ds arbitrary: cl md)
  case Nil
  then show ?case by (auto split: option.splits)
next
  case (Cons d ds)
  show ?case
  proof (cases "near_context nt cp d")
    case False
    then have e: "closest_date_loop nt cp (d # ds) cl md = closest_date_loop nt cp ds cl md"
      by (auto simp add: near_context_def Let_def)
    show ?thesis
      using Cons.IH[of cl md] Cons.prems False unfolding e
      by (auto split: option.splits)
  next
    case True
    note near = True
    show ?thesis
    proof (cases "case md of None \<Rightarrow> True | Some m \<Rightarrow> py_find nt (lower d) - cp < m")
      case True
      then have e: "closest_date_loop nt cp (d # ds) cl md =
                 closest_date_loop nt cp ds (Some d) (Some (py_find nt (lower d) - cp))"
        using near by (auto simp add: near_context_def Let_def)
      have pre: "(Some d = None \<and> Some (py_find nt (lower d) - cp) = None) \<or>
           (\<exists>c. Some d = Some c \<and> Some (py_find nt (lower d) - cp) = Some (py_find nt (lower c) - cp) \<and> near_context nt cp c)"
        using near by simp
      show ?thesis
        using Cons.IH[OF pre] Cons.prems True unfolding e
        by (auto split: option.splits)
    next
      case False
      then have e: "closest_date_loop nt cp (d # ds) cl md = closest_date_loop nt cp ds cl md"
        using near by (auto simp add: near_context_def Let_def)
      show ?thesis
        using Cons.IH[of cl md] Cons.prems False unfolding e
        by (auto split: option.splits)
    qed
  qed
qed


lemma py_find_empty: "py_find nt [] = 0"
  by (cases nt) (simp_all add: py_find_def)

lemma near_nonempty: "0 \<le> cp \<Longrightarrow> near_context nt cp d \<Longrightarrow> d \<noteq> []"
  by (auto simp: near_context_def lower_def py_find_empty)

lemma closest_from_start:
  "case closest_date_loop nt cp ds None None of
     None \<Rightarrow> \<forall>d\<in>set ds. \<not> near_context nt cp d
   | Some r \<Rightarrow> near_context nt cp r \<and> r \<in> set ds \<and>
       (\<forall>d\<in>set ds. near_context nt cp d \<longrightarrow> py_find nt (lower r) \<le> py_find nt (lower d))"
  using closest_inv[where cl=None and md=None and nt=nt and cp=cp and ds=ds] by (auto split: option.splits)

lemma context_skip:
  assumes "\<not> finds_date (normalized_text txt) dates c"
  shows "context_loop txt dates (c # cs) = context_loop txt dates cs"
proof (cases "0 \<le> py_find (normalized_text txt) c")
  case False
  then show ?thesis by (simp add: Let_def)
next
  case True
  then have "\<forall>d\<in>set dates. \<not> near_context (normalized_text txt) (py_find (normalized_text txt) c) d"
    using assms by (simp add: finds_date_def list_ex_iff)
  then have "closest_date_loop (normalized_text txt) (py_find (normalized_text txt) c) dates None None = None"
    using closest_from_start[where nt="normalized_text txt" and cp="py_find (normalized_text txt) c" and ds=dates]
    by (auto split: option.splits)
  then show ?thesis using True by (simp add: Let_def)
qed

lemma context_hit:
  assumes "finds_date (normalized_text txt) dates c"
  shows "\<exists>r. context_loop txt dates (c # cs) = Some r \<and> r \<in> set dates \<and>
             near_context (normalized_text txt) (py_find (normalized_text txt) c) r \<and>
             (\<forall>d\<in>set dates. near_context (normalized_text txt) (py_find (normalized_text txt) c) d \<longrightarrow>
                 py_find (normalized_text txt) (lower r) \<le> py_find (normalized_text txt) (lower d))"
proof -
  let ?nt = "normalized_text txt"
  let ?cp = "py_find ?nt c"
  have pos: "0 \<le> ?cp" and ex: "\<exists>d\<in>set dates. near_context ?nt ?cp d"
    using assms by (simp_all add: finds_date_def list_ex_iff)
  obtain r where r: "closest_date_loop ?nt ?cp dates None None = Some r"
    using closest_from_start[where nt="?nt" and cp="?cp" and ds=dates] ex by (auto split: option.splits)
  have props: "near_context ?nt ?cp r \<and> r \<in> set dates \<and>
       (\<forall>d\<in>set dates. near_context ?nt ?cp d \<longrightarrow> py_find ?nt (lower r) \<le> py_find ?nt (lower d))"
    using closest_from_start[where nt="?nt" and cp="?cp" and ds=dates] r by simp
  have ne: "r \<noteq> []" using near_nonempty[OF pos] props by blast
  have "context_loop txt dates (c # cs) = Some r"
    using pos r ne by (simp add: Let_def)
  then show ?thesis using props by blast
qed

lemma context_none:
  "\<forall>c\<in>set cs. \<not> finds_date (normalized_text txt) dates c \<Longrightarrow> context_loop txt dates cs = None"
  by (induction cs) (simp_all add: context_skip del: context_loop.simps(2))

lemma context_first:
  assumes "\<forall>c'\<in>set pre. \<not> finds_date (normalized_text txt) dates c'"
  shows "context_loop txt dates (pre @ c # post) = context_loop txt dates (c # post)"
  using assms by (induction pre) (simp_all add: context_skip del: context_loop.simps(2))



text \<open>
  Claim C4. The strategies are tried in the order literal, proximity, generic pattern,
  first annotated date, and the first one that yields a date decides the field.
  (a) When the literal pattern matches, the field is its group, whatever the other
  strategies would give. (b) Otherwise, for the first context phrase in the list that
  occurs in the normalized text and has a candidate near it, the field is a candidate
  whose position is after the phrase and less than 100 characters away, and no such
  candidate is closer. (c) When no phrase finds a date, the field is the match of the
  generic pattern, and (d) when that does not match either, the first annotated date, or
  the empty string when there is none.
\<close>

theorem effective_date_cascade:
  fixes D :: date_re and contexts ner_dates :: "string list" and page :: string
  defines "R \<equiv> resolve_effective_date D contexts ner_dates page"
    and "NT \<equiv> normalized_text page"
    and "CANDS \<equiv> all_potential_dates ner_dates (date_pattern_matches D page)"
  shows
  "(\<forall>g. direct_date D page = Some g \<and> strip g \<noteq> [] \<longrightarrow> R = strip g) \<and>
   (direct_fails D page \<longrightarrow>
      (\<forall>pre c post. contexts = pre @ c # post \<and> (\<forall>c'\<in>set pre. \<not> finds_date NT CANDS c') \<and>
            finds_date NT CANDS c \<longrightarrow>
          R \<in> set CANDS \<and> near_context NT (py_find NT c) R \<and>
          (\<forall>d\<in>set CANDS. near_context NT (py_find NT c) d \<longrightarrow>
               py_find NT (lower R) \<le> py_find NT (lower d))) \<and>
      ((\<forall>c\<in>set contexts. \<not> finds_date NT CANDS c) \<longrightarrow>
          (\<forall>m. month_day_year D page = Some m \<longrightarrow> R = m) \<and>
          (month_day_year D page = None \<longrightarrow>
             (\<forall>d ds. ner_dates = d # ds \<longrightarrow> R = d) \<and> (ner_dates = [] \<longrightarrow> R = []))))"
proof (intro conjI allI impI)
  fix g assume "direct_date D page = Some g \<and> strip g \<noteq> []"
  then show "R = strip g" by (simp add: R_def resolve_effective_date_def)
next
  fix pre c post
  assume df: "direct_fails D page"
    and h: "contexts = pre @ c # post \<and> (\<forall>c'\<in>set pre. \<not> finds_date NT CANDS c') \<and> finds_date NT CANDS c"
  have e0: "(case direct_date D page of Some g \<Rightarrow> strip g | None \<Rightarrow> []) = []"
    using df by (simp add: direct_fails_def split: option.splits)
  have first: "context_loop page CANDS contexts = context_loop page CANDS (c # post)"
    using h context_first[of pre page CANDS c post] by (simp add: NT_def)
  obtain r where r: "context_loop page CANDS (c # post) = Some r"
    and rp: "r \<in> set CANDS" "near_context NT (py_find NT c) r"
       "\<forall>d\<in>set CANDS. near_context NT (py_find NT c) d \<longrightarrow> py_find NT (lower r) \<le> py_find NT (lower d)"
    using context_hit[of page CANDS c post] h unfolding NT_def by blast
  have "R = r"
    using e0 first r by (simp add: R_def resolve_effective_date_def CANDS_def)
  then show "R \<in> set CANDS" "near_context NT (py_find NT c) R"
    "\<forall>d\<in>set CANDS. near_context NT (py_find NT c) d \<longrightarrow> py_find NT (lower R) \<le> py_find NT (lower d)"
    using rp by simp_all
next
  fix m
  assume df: "direct_fails D page" and no: "\<forall>c\<in>set contexts. \<not> finds_date NT CANDS c"
    and m: "month_day_year D page = Some m"
  have e0: "(case direct_date D page of Some g \<Rightarrow> strip g | None \<Rightarrow> []) = []"
    using df by (simp add: direct_fails_def split: option.splits)
  have "context_loop page CANDS contexts = None"
    using no context_none[of contexts page CANDS] by (simp add: NT_def)
  then show "R = m" using e0 m by (simp add: R_def resolve_effective_date_def CANDS_def)
next
  fix d ds
  assume df: "direct_fails D page" and no: "\<forall>c\<in>set contexts. \<not> finds_date NT CANDS c"
    and m: "month_day_year D page = None" and n: "ner_dates = d # ds"
  have e0: "(case direct_date D page of Some g \<Rightarrow> strip g | None \<Rightarrow> []) = []"
    using df by (simp add: direct_fails_def split: option.splits)
  have "context_loop page CANDS contexts = None"
    using no context_none[of contexts page CANDS] by (simp add: NT_def)
  then show "R = d" using e0 m n by (simp add: R_def resolve_effective_date_def CANDS_def)
next
  assume df: "direct_fails D page" and no: "\<forall>c\<in>set contexts. \<not> finds_date NT CANDS c"
    and m: "month_day_year D page = None" and n: "ner_dates = []"
  have e0: "(case direct_date D page of Some g \<Rightarrow> strip g | None \<Rightarrow> []) = []"
    using df by (simp add: direct_fails_def split: option.splits)
  have "context_loop page CANDS contexts = None"
    using no context_none[of contexts page CANDS] by (simp add: NT_def)
  then show "R = []" using e0 m n by (simp add: R_def resolve_effective_date_def CANDS_def)
qed

lemma dated_cands: "all_potential_dates [] (date_pattern_matches dated_re ''Dated as of 5 May 2025'') = [''5 May 2025'']"
  by code_simp

lemma dated_direct: "direct_fails dated_re ''Dated as of 5 May 2025''"
  by code_simp

lemma dated_skip: "\<not> finds_date (normalized_text ''Dated as of 5 May 2025'') [''5 May 2025''] ''effective date''"
  by code_simp

lemma dated_hit: "finds_date (normalized_text ''Dated as of 5 May 2025'') [''5 May 2025''] ''dated as of''"
  by code_simp

lemma literal_strip: "strip ''April 29, 2025'' = ''April 29, 2025''"
  by code_simp

theorem effective_date_cascade_witness:
  "direct_fails dated_re ''Dated as of 5 May 2025'' \<and>
   \<not> finds_date (normalized_text ''Dated as of 5 May 2025'') [''5 May 2025''] ''effective date'' \<and>
   finds_date (normalized_text ''Dated as of 5 May 2025'') [''5 May 2025''] ''dated as of'' \<and>
   resolve_effective_date dated_re DATE_CONTEXTS [] ''Dated as of 5 May 2025'' = ''5 May 2025'' \<and>
   resolve_effective_date literal_re DATE_CONTEXTS [''May 1, 2024''] ''Effective Date: April 29, 2025''
     = ''April 29, 2025''"
proof -
  let ?txt = "''Dated as of 5 May 2025''"
  have ctx: "DATE_CONTEXTS = [''effective date''] @ ''dated as of'' #
        [''agreement date'', ''executed on'', ''entered into on'']"
    by (simp add: DATE_CONTEXTS_def)
  have pre: "\<forall>c'\<in>set [''effective date''].
      \<not> finds_date (normalized_text ?txt) (all_potential_dates [] (date_pattern_matches dated_re ?txt)) c'"
    using dated_skip by (simp add: dated_cands)
  have hit: "finds_date (normalized_text ?txt) (all_potential_dates [] (date_pattern_matches dated_re ?txt)) ''dated as of''"
    using dated_hit by (simp add: dated_cands)
  have "resolve_effective_date dated_re DATE_CONTEXTS [] ?txt
          \<in> set (all_potential_dates [] (date_pattern_matches dated_re ?txt))"
    using effective_date_cascade[of dated_re ?txt DATE_CONTEXTS "[]"] dated_direct ctx pre hit
    by blast
  then have a: "resolve_effective_date dated_re DATE_CONTEXTS [] ?txt = ''5 May 2025''"
    by (simp add: dated_cands)
  have d: "direct_date literal_re ''Effective Date: April 29, 2025'' = Some ''April 29, 2025''"
    by (simp add: literal_re_def)
  have b: "resolve_effective_date literal_re DATE_CONTEXTS [''May 1, 2024''] ''Effective Date: April 29, 2025''
     = ''April 29, 2025''"
    using effective_date_cascade[of literal_re "''Effective Date: April 29, 2025''" DATE_CONTEXTS "[''May 1, 2024'']"]
      d literal_strip by auto
  show ?thesis using dated_direct dated_skip dated_hit a b by blast
qed


section \<open>Parties of a document without pages\<close>

text \<open>
  Claim C10. When the data list is empty, or its first record has no \<open>pages\<close> key,
  \<open>extract_parties\<close> returns the empty list and does not raise.
\<close>

theorem extract_parties_no_pages:
  "data = [] \<or> pages (hd data) = None \<Longrightarrow> extract_parties N P data = Inr []"
  by (cases data) (auto simp: extract_parties_def)

theorem extract_parties_no_pages_witness:
  "extract_parties (ner_const []) no_party_re [] = Inr [] \<and>
   extract_parties (ner_const []) no_party_re [\<lparr>pages = None\<rparr>] = Inr []"
proof -
  have a: "extract_parties (ner_const []) no_party_re [] = Inr []"
    using extract_parties_no_pages [of "[]" "ner_const []" no_party_re] by simp
  have b: "extract_parties (ner_const []) no_party_re [\<lparr>pages = None\<rparr>] = Inr []"
    using extract_parties_no_pages [of "[\<lparr>pages = None\<rparr>]" "ner_const []" no_party_re] by simp
  show ?thesis using a b by simp
qed

section \<open>The fallback orchestrator\<close>

lemma map_of_dict_set: "map_of (dict_set d k v) = (map_of d)(k \<mapsto> v)"
  by (induction d) (auto simp: fun_eq_iff)

lemma py_get_dict_set: "py_get (dict_set d k v) k' = (if k' = k then v else py_get d k')"
  by (simp add: py_get_def map_of_dict_set)

lemma supplement_keeps:
  "truthy (py_get m k) \<Longrightarrow> py_get (supplement m tm) k = py_get m k"
  by (auto simp: supplement_def Let_def py_get_dict_set)

text \<open>The call of line 466 passes one argument for four parameters: the structured pass
  fails on every document and leaves the data as it was.\<close>

lemma json_extract_fails: "json_extract X d pd = (False, pd)"
  by (simp add: json_extract_def py_call_def)

lemma json_phase_fails: "json_phase X j pd = (False, pd)"
  by (simp add: json_phase_def json_extract_fails split: option.splits)

lemma process_unfold:
  "process_with_fallback X j t =
     (if t = NoTxt then Inr initial_data else txt_fallback X t initial_data)"
  by (auto simp: process_with_fallback_def json_phase_fails split: sum.splits)

lemma txt_fallback_source:
  "txt_fallback X t pd = Inr r \<Longrightarrow> source r = source pd \<or> source r = ''txt''"
  by (auto simp: txt_fallback_def fallback_failed_def Let_def
      split: txt_source.splits sum.splits if_splits)

lemma process_source:
  "process_with_fallback X j t = Inr r \<Longrightarrow> source r = ''json'' \<or> source r = ''txt''"
  using txt_fallback_source[of X t initial_data r]
  by (auto simp: process_unfold initial_data_def split: if_splits)

lemma process_txt:
  "txt_metadata X c = Inr m \<Longrightarrow> txt_articles X c = Inr a \<Longrightarrow>
   process_with_fallback X j (Txt c) =
     Inr (initial_data\<lparr>metadata := m, articles := a, source := ''txt''\<rparr>)"
  by (simp add: process_unfold txt_fallback_def)

text \<open>
  Claim C3, as amended. Every result that \<open>process_with_fallback\<close> returns carries one of
  the tags json, txt and hybrid. When the structured source has pages but none of them
  has text, and the text file is read and extracted without error, the result is the
  text's metadata and articles with the tag txt.
\<close>

theorem provenance_tag_values:
  "(\<forall>r. process_with_fallback X j t = Inr r \<longrightarrow> source r \<in> {''json'', ''txt'', ''hybrid''}) \<and>
   (\<forall>d ps c m a. j = Some d \<and> pages d = Some ps \<and> \<not> list_ex has_text ps \<and> t = Txt c \<and>
        txt_metadata X c = Inr m \<and> txt_articles X c = Inr a \<longrightarrow>
      process_with_fallback X j t =
        Inr (initial_data\<lparr>metadata := m, articles := a, source := ''txt''\<rparr>))"
proof (intro conjI allI impI)
  fix r assume "process_with_fallback X j t = Inr r"
  then have "source r = ''json'' \<or> source r = ''txt''" by (rule process_source)
  then show "source r \<in> {''json'', ''txt'', ''hybrid''}" by auto
next
  fix d ps c m a
  assume h: "j = Some d \<and> pages d = Some ps \<and> \<not> list_ex has_text ps \<and> t = Txt c \<and>
        txt_metadata X c = Inr m \<and> txt_articles X c = Inr a"
  then show "process_with_fallback X j t =
        Inr (initial_data\<lparr>metadata := m, articles := a, source := ''txt''\<rparr>)"
    by (simp add: process_txt)
qed

text \<open>The claim as stated names the tag text: on a structured source whose only page is
  empty and the fallback text "x", the tag is txt, which is none of json, text, hybrid.\<close>

theorem provenance_tag_counterexample:
  "process_with_fallback text_x_extractors (Some (one_page [])) (Txt ''x'') =
     Inr \<lparr>metadata = [(''title'', PyStr ''x''), (''document_type'', PyStr ''Unknown''),
                      (''execution_date'', PyStr []), (''effective_date'', PyStr []),
                      (''parties'', PyList [])],
          articles = [], parties = [], entities = [], definitions = [], source = ''txt''\<rparr> \<and>
   ''txt'' \<notin> {''json'', ''text'', ''hybrid''}"
  by (simp add: process_with_fallback_def json_phase_def one_page_def has_text_def
      txt_fallback_def text_x_extractors_def initial_data_def)

theorem provenance_tag_values_witness:
  "pages (one_page []) = Some [\<lparr>page_text = Some []\<rparr>] \<and>
   \<not> list_ex has_text [\<lparr>page_text = Some []\<rparr>] \<and>
   txt_articles text_x_extractors ''x'' = Inr [] \<and>
   process_with_fallback text_x_extractors (Some (one_page [])) (Txt ''x'') =
     Inr (initial_data\<lparr>metadata := [(''title'', PyStr ''x''), (''document_type'', PyStr ''Unknown''),
                      (''execution_date'', PyStr []), (''effective_date'', PyStr []),
                      (''parties'', PyList [])], articles := [], source := ''txt''\<rparr>)"
proof -
  have p: "pages (one_page []) = Some [\<lparr>page_text = Some []\<rparr>]" by (simp add: one_page_def)
  have n: "\<not> list_ex has_text [\<lparr>page_text = Some []\<rparr>]" by (simp add: has_text_def)
  have m: "txt_metadata text_x_extractors ''x'' =
      Inr [(''title'', PyStr ''x''), (''document_type'', PyStr ''Unknown''),
           (''execution_date'', PyStr []), (''effective_date'', PyStr []), (''parties'', PyList [])]"
    by (simp add: text_x_extractors_def)
  have a: "txt_articles text_x_extractors ''x'' = Inr []" by (simp add: text_x_extractors_def)
  show ?thesis
    using provenance_tag_values [of text_x_extractors "Some (one_page [])" "Txt ''x''"] p n m a
    by blast
qed

text \<open>
  Claim C7. The structured pass fails on every run, and what the run does then depends
  on the text file alone. Without a text file it returns the data as initialized (no
  metadata, no articles, tagged json) and does not raise: the \<open>raise\<close> of line 513 stands
  inside the handler of the text pass, which is not entered. With a text file that
  cannot be read, or whose metadata or articles extraction raises, the run raises
  \<open>RuntimeError\<close>; otherwise it returns the text's metadata and articles, tagged txt.
\<close>

theorem fallback_failure:
  "process_with_fallback X j NoTxt = Inr initial_data \<and>
   process_with_fallback X j Unreadable = Inl RuntimeError \<and>
   process_with_fallback X j (Txt c) =
     (case txt_metadata X c of
        Inl e \<Rightarrow> Inl RuntimeError
      | Inr m \<Rightarrow>
          (case txt_articles X c of
             Inl e \<Rightarrow> Inl RuntimeError
           | Inr a \<Rightarrow> Inr (initial_data\<lparr>metadata := m, articles := a, source := ''txt''\<rparr>)))"
  by (simp add: process_unfold txt_fallback_def fallback_failed_def initial_data_def
      split: sum.splits)

lemma hybrid_titled:
  "articles pd \<noteq> [] \<Longrightarrow> truthy (py_get (metadata pd) ''title'') \<Longrightarrow> hybrid X t pd = pd"
  by (auto simp: hybrid_def needs_supplement_def py_get_def truthy_def)

lemma hybrid_articles:
  "articles pd \<noteq> [] \<Longrightarrow> articles (hybrid X t pd) = articles pd"
  by (auto simp: hybrid_def split: txt_source.splits sum.splits)

lemma hybrid_parties: "parties (hybrid X t pd) = parties pd"
  by (auto simp: hybrid_def split: txt_source.splits sum.splits)

lemma hybrid_keeps:
  "truthy (py_get (metadata pd) k) \<Longrightarrow>
   py_get (metadata (hybrid X t pd)) k = py_get (metadata pd) k"
  by (auto simp: hybrid_def supplement_keeps split: txt_source.splits sum.splits)

text \<open>
  Claim C6. The structured pass fails on every run, so \<open>json_success\<close> is false at line
  516 and the hybrid pass is never entered: no result is tagged hybrid, and a run whose
  text file is read and extracted returns the text's metadata and articles, tagged txt,
  whatever the structured file holds. The block of lines 518 to 548 itself, entered with
  data \<open>pd\<close>, keeps the articles that are present, the parties and every metadata field
  that is populated; but with articles and a title present it changes nothing, also
  when the effective date or the document type is missing.
\<close>

theorem hybrid_never_entered:
  "json_phase X j initial_data = (False, initial_data) \<and>
   (\<forall>r. process_with_fallback X j t = Inr r \<longrightarrow> source r \<noteq> ''hybrid'') \<and>
   (\<forall>c m a. t = Txt c \<and> txt_metadata X c = Inr m \<and> txt_articles X c = Inr a \<longrightarrow>
      process_with_fallback X j t =
        Inr (initial_data\<lparr>metadata := m, articles := a, source := ''txt''\<rparr>)) \<and>
   (articles pd \<noteq> [] \<longrightarrow> articles (hybrid X t pd) = articles pd) \<and>
   parties (hybrid X t pd) = parties pd \<and>
   (\<forall>k. truthy (py_get (metadata pd) k) \<longrightarrow>
        py_get (metadata (hybrid X t pd)) k = py_get (metadata pd) k) \<and>
   (articles pd \<noteq> [] \<and> truthy (py_get (metadata pd) ''title'') \<longrightarrow> hybrid X t pd = pd)"
proof (intro conjI allI impI)
  show "json_phase X j initial_data = (False, initial_data)" by (rule json_phase_fails)
next
  fix r assume "process_with_fallback X j t = Inr r"
  then have "source r = ''json'' \<or> source r = ''txt''" by (rule process_source)
  then show "source r \<noteq> ''hybrid''" by auto
next
  fix c m a
  assume "t = Txt c \<and> txt_metadata X c = Inr m \<and> txt_articles X c = Inr a"
  then show "process_with_fallback X j t =
        Inr (initial_data\<lparr>metadata := m, articles := a, source := ''txt''\<rparr>)"
    by (simp add: process_txt)
next
  assume "articles pd \<noteq> []"
  then show "articles (hybrid X t pd) = articles pd" by (rule hybrid_articles)
next
  show "parties (hybrid X t pd) = parties pd" by (rule hybrid_parties)
next
  fix k assume "truthy (py_get (metadata pd) k)"
  then show "py_get (metadata (hybrid X t pd)) k = py_get (metadata pd) k" by (rule hybrid_keeps)
next
  assume "articles pd \<noteq> [] \<and> truthy (py_get (metadata pd) ''title'')"
  then show "hybrid X t pd = pd" by (simp add: hybrid_titled)
qed

text \<open>The structured file with the one page "scope" and the text file
  "Effective May 1, 2025": the run returns the text's data, tagged txt. And the hybrid
  block, given the title T, no effective date and one article, leaves the effective date
  empty although the text has one.\<close>

theorem hybrid_never_entered_witness:
  "process_with_fallback may_text_extractors scope_doc may_text =
     Inr (initial_data\<lparr>metadata := may_text_meta, articles := [], source := ''txt''\<rparr>) \<and>
   source (initial_data\<lparr>metadata := may_text_meta, articles := [], source := ''txt''\<rparr>) \<noteq> ''hybrid'' \<and>
   articles titled_data = [scope_article] \<and>
   py_get (metadata titled_data) ''title'' = PyStr ''T'' \<and>
   py_get (metadata titled_data) ''effective_date'' = PyStr [] \<and>
   py_get may_text_meta ''effective_date'' = PyStr ''May 1, 2025'' \<and>
   hybrid may_text_extractors may_text titled_data = titled_data"
proof -
  have t: "may_text = Txt ''Effective May 1, 2025''" by (simp add: may_text_def)
  have m: "txt_metadata may_text_extractors ''Effective May 1, 2025'' = Inr may_text_meta"
    by (simp add: may_text_extractors_def)
  have a: "txt_articles may_text_extractors ''Effective May 1, 2025'' = Inr []"
    by (simp add: may_text_extractors_def text_x_extractors_def)
  have r: "process_with_fallback may_text_extractors scope_doc may_text =
     Inr (initial_data\<lparr>metadata := may_text_meta, articles := [], source := ''txt''\<rparr>)"
    using hybrid_never_entered [of may_text_extractors scope_doc may_text titled_data] t m a
    by blast
  have s: "source (initial_data\<lparr>metadata := may_text_meta, articles := [], source := ''txt''\<rparr>) \<noteq> ''hybrid''"
    using hybrid_never_entered [of may_text_extractors scope_doc may_text titled_data] r
    by blast
  have d1: "articles titled_data = [scope_article]" by (simp add: titled_data_def)
  have d2: "py_get (metadata titled_data) ''title'' = PyStr ''T''"
    by (simp add: titled_data_def py_get_def)
  have d3: "py_get (metadata titled_data) ''effective_date'' = PyStr []"
    by (simp add: titled_data_def py_get_def)
  have d4: "py_get may_text_meta ''effective_date'' = PyStr ''May 1, 2025''"
    by (simp add: may_text_meta_def py_get_def)
  have d5: "articles titled_data \<noteq> [] \<and> truthy (py_get (metadata titled_data) ''title'')"
    by (simp add: d1 d2 truthy_def)
  have h: "hybrid may_text_extractors may_text titled_data = titled_data"
    using hybrid_never_entered [of may_text_extractors scope_doc may_text titled_data] d5
    by blast
  show ?thesis using r s d1 d2 d3 d4 h by blast
qed

section \<open>Escaping and truncation in the write statements\<close>

lemma escape_quotes_Cons:
  "escape_quotes (c # cs) = (if c = CHR 0x27 then [CHR 0x5C, CHR 0x27] else [c]) @ escape_quotes cs"
  by (simp add: escape_quotes_def replace_char_def)

lemma escape_quotes_Nil: "escape_quotes [] = []"
  by (simp add: escape_quotes_def replace_char_def)

lemma escaped_after_escape: "escaped_after p (escape_quotes s)"
  by (induction s arbitrary: p) (simp_all add: escape_quotes_Cons escape_quotes_Nil)

lemma escaped_after_take: "escaped_after p s \<Longrightarrow> escaped_after p (take n s)"
  by (induction s arbitrary: p n) (auto simp: take_Cons split: nat.splits)

lemma escaped_after_dots: "escaped_after p s \<Longrightarrow> escaped_after p (s @ ''...'')"
  by (induction s arbitrary: p) auto

lemma length_escape: "length s \<le> length (escape_quotes s)"
  by (induction s) (simp_all add: escape_quotes_Cons escape_quotes_Nil)

text \<open>
  Claim C8, as amended. The content of a section is escaped and then cut: what is
  embedded has at most 500 characters, every quote in it follows a backslash, and when
  the escaped content is longer than 500 characters (as it is whenever the content
  itself is) it is the first 497 characters of the escaped content followed by three
  dots, 500 characters in all. The statement of a section embeds this value; the
  statement of a key provision embeds the escaped number, title and summary at their
  full length.
\<close>

theorem section_content_escaped_truncated:
  "length (section_content c) \<le> 500 \<and>
   quotes_escaped (escape_quotes c) \<and>
   quotes_escaped (section_content c) \<and>
   (length (escape_quotes c) > 500 \<longrightarrow>
      section_content c = take 497 (escape_quotes c) @ ''...'' \<and> length (section_content c) = 500) \<and>
   (length (escape_quotes c) \<le> 500 \<longrightarrow> section_content c = escape_quotes c) \<and>
   (length c > 500 \<longrightarrow> section_content c = take 497 (escape_quotes c) @ ''...'') \<and>
   hd (section_cypher idx document_name document_id (i, s)) =
     ''CREATE (s'' @ str_nat idx @ ''_'' @ str_nat i @ '':Section {number: '' @ q @ sec_number s @ q @
     '', title: '' @ q @ sec_title s @ q @
     '', content: '' @ q @ section_content (sec_content s) @ q @
     '', sourceDocument: '' @ q @ document_name @ q @
     '', documentId: '' @ q @ document_id @ q @ '' })'' \<and>
   hd (provision_cypher document_name document_id (i, kp)) =
     ''CREATE (kp'' @ str_nat i @ '':KeyProvision {number: '' @ q @ escape_quotes (kp_number kp) @ q @
     '', title: '' @ q @ escape_quotes (kp_title kp) @ q @
     '', summary: '' @ q @ escape_quotes (kp_summary kp) @ q @
     '', sourceDocument: '' @ q @ document_name @ q @
     '', documentId: '' @ q @ document_id @ q @ '' })''"
proof -
  have l: "length c \<le> length (escape_quotes c)" by (rule length_escape)
  have a: "length (section_content c) \<le> 500"
    by (simp add: section_content_def Let_def)
  have b: "quotes_escaped (escape_quotes c)"
    by (simp add: quotes_escaped_def escaped_after_escape)
  have c: "quotes_escaped (section_content c)"
    by (simp add: section_content_def Let_def quotes_escaped_def escaped_after_escape
        escaped_after_take escaped_after_dots)
  have d: "length (escape_quotes c) > 500 \<longrightarrow>
      section_content c = take 497 (escape_quotes c) @ ''...'' \<and> length (section_content c) = 500"
    by (simp add: section_content_def Let_def)
  have e: "length (escape_quotes c) \<le> 500 \<longrightarrow> section_content c = escape_quotes c"
    by (simp add: section_content_def Let_def)
  have f: "length c > 500 \<longrightarrow> section_content c = take 497 (escape_quotes c) @ ''...''"
    using l d by simp
  show ?thesis using a b c d e f
    by (simp add: section_cypher_def provision_cypher_def Let_def)
qed

lemma replicate_escape: "escape_quotes (replicate n (CHR ''A'')) = replicate n (CHR ''A'')"
  by (induction n) (simp_all add: escape_quotes_Cons escape_quotes_Nil)

text \<open>The claim as stated cuts every string longer than 500 characters: the title of a key
  provision, 501 characters long, is embedded whole.\<close>

theorem section_content_counterexample:
  "generate_key_provisions_cypher [long_title_provision] ''d'' ''i'' =
     [''CREATE (kp0:KeyProvision {number: '' @ q @ ''1'' @ q @
       '', title: '' @ q @ replicate 501 (CHR ''A'') @ q @
       '', summary: '' @ q @ q @
       '', sourceDocument: '' @ q @ ''d'' @ q @
       '', documentId: '' @ q @ ''i'' @ q @ '' })'',
      ''MATCH (c:Contract {documentId: '' @ q @ ''i'' @ q @
       ''}) CREATE (c)-[:HAS_KEY_PROVISION]->(kp0)''] \<and>
   length (kp_title long_title_provision) = 501"
  by (simp add: generate_key_provisions_cypher_def provision_cypher_def long_title_provision_def
      replicate_escape escape_quotes_Cons escape_quotes_Nil DIGITS_def)

theorem section_content_escaped_truncated_witness:
  "length (escape_quotes (replicate 600 (CHR ''A''))) > 500 \<and>
   length (replicate 600 (CHR ''A'')) > 500 \<and>
   section_content (replicate 600 (CHR ''A'')) = replicate 497 (CHR ''A'') @ ''...'' \<and>
   length (escape_quotes [CHR ''i'', CHR ''t'', CHR 0x27, CHR ''s'']) \<le> 500 \<and>
   section_content [CHR ''i'', CHR ''t'', CHR 0x27, CHR ''s''] = [CHR ''i'', CHR ''t'', CHR 0x5C, CHR 0x27, CHR ''s'']"
proof -
  have a: "length (escape_quotes (replicate 600 (CHR ''A''))) > 500"
    by (simp add: replicate_escape)
  have b: "section_content (replicate 600 (CHR ''A'')) = take 497 (escape_quotes (replicate 600 (CHR ''A''))) @ ''...''"
    using section_content_escaped_truncated [of "replicate 600 (CHR ''A'')"] a by blast
  have c: "length (escape_quotes [CHR ''i'', CHR ''t'', CHR 0x27, CHR ''s'']) \<le> 500"
    by (simp add: escape_quotes_Cons escape_quotes_Nil)
  have d: "section_content [CHR ''i'', CHR ''t'', CHR 0x27, CHR ''s''] = escape_quotes [CHR ''i'', CHR ''t'', CHR 0x27, CHR ''s'']"
    using section_content_escaped_truncated [of "[CHR ''i'', CHR ''t'', CHR 0x27, CHR ''s'']"] c by blast
  show ?thesis using a c
    by (simp add: b d replicate_escape escape_quotes_Cons escape_quotes_Nil)
qed

section \<open>Articles per candidate\<close>

lemma length_sort_articles: "length (sort_articles arts) = length arts"
proof (cases "\<forall>a\<in>set arts. py_int (numeric_id a) \<noteq> None")
  case True
  then show ?thesis by (simp add: sort_articles_all_parse)
next
  case False
  then show ?thesis by (simp add: sort_articles_some_fail)
qed

lemma length_articles_of_headers: "length (articles_of_headers R tx hs) = length hs"
  by (induction hs) (simp_all add: Let_def)

lemma length_text_articles:
  "length (extract_articles_from_text R tx) =
     length (concat (map (\<lambda>k. art_finditer R k tx) ARTICLE_PATTERNS))"
  by (simp add: extract_articles_from_text_def length_articles_of_headers article_headers_def
      length_concat comp_def)

lemma extract_articles_none:
  "full_text_of d = Inr ft \<Longrightarrow> doc_candidates N R ft = [] \<Longrightarrow> extract_articles N R [d] = Inr []"
  by (simp add: extract_articles_single sort_articles_def section_phase_nil)

lemma extract_articles_returns:
  assumes "full_text_of d = Inr ft"
    and "spans_found R ft (sort_articles (doc_candidates N R ft))"
  shows "\<exists>r. extract_articles N R [d] = Inr r \<and> length r = length (doc_candidates N R ft) \<and>
             map title r = map title (sort_articles (doc_candidates N R ft))"
proof -
  obtain r where r: "section_phase N R ft (sort_articles (doc_candidates N R ft)) = Inr r"
    using assms(2) section_phase_returns by blast
  show ?thesis
    using section_phase_ids[OF r]
    by (simp add: extract_articles_single[OF assms(1)] r length_sort_articles)
qed

text \<open>
  Claim C1, as amended. \<open>extract_articles_from_text\<close> returns one article for each match
  of an article pattern, and the empty list exactly when no pattern matches. For a
  document whose pages can be read, \<open>extract_articles\<close> returns the empty list when there
  is no candidate; when no candidate has an empty span it returns one article for each
  candidate, with the titles of the candidates in their sorted order; and when some
  candidate has an empty span it raises \<open>ValueError\<close>.
\<close>

theorem articles_per_candidate:
  "length (extract_articles_from_text R tx) =
     length (concat (map (\<lambda>k. art_finditer R k tx) ARTICLE_PATTERNS)) \<and>
   (extract_articles_from_text R tx = [] \<longleftrightarrow> (\<forall>k\<in>set ARTICLE_PATTERNS. art_finditer R k tx = [])) \<and>
   (\<forall>ft. full_text_of d = Inr ft \<longrightarrow>
      (doc_candidates N R ft = [] \<longrightarrow> extract_articles N R [d] = Inr []) \<and>
      (spans_found R ft (sort_articles (doc_candidates N R ft)) \<longrightarrow>
         (\<exists>r. extract_articles N R [d] = Inr r \<and> length r = length (doc_candidates N R ft) \<and>
              map title r = map title (sort_articles (doc_candidates N R ft)))) \<and>
      (\<not> spans_found R ft (sort_articles (doc_candidates N R ft)) \<longrightarrow>
         extract_articles N R [d] = Inl ValueError))"
proof (intro conjI allI impI)
  show l: "length (extract_articles_from_text R tx) =
     length (concat (map (\<lambda>k. art_finditer R k tx) ARTICLE_PATTERNS))"
    by (rule length_text_articles)
  have "extract_articles_from_text R tx = [] \<longleftrightarrow>
        concat (map (\<lambda>k. art_finditer R k tx) ARTICLE_PATTERNS) = []"
    using l by (metis length_0_conv)
  then show "extract_articles_from_text R tx = [] \<longleftrightarrow> (\<forall>k\<in>set ARTICLE_PATTERNS. art_finditer R k tx = [])"
    by simp
next
  fix ft assume "full_text_of d = Inr ft" and "doc_candidates N R ft = []"
  then show "extract_articles N R [d] = Inr []" by (rule extract_articles_none)
next
  fix ft assume "full_text_of d = Inr ft"
    and "spans_found R ft (sort_articles (doc_candidates N R ft))"
  then show "\<exists>r. extract_articles N R [d] = Inr r \<and> length r = length (doc_candidates N R ft) \<and>
              map title r = map title (sort_articles (doc_candidates N R ft))"
    by (rule extract_articles_returns)
next
  fix ft assume ft: "full_text_of d = Inr ft"
    and "\<not> spans_found R ft (sort_articles (doc_candidates N R ft))"
  then show "extract_articles N R [d] = Inl ValueError"
    by (simp add: extract_articles_single[OF ft] section_phase_raises)
qed

lemma hello_chunk_bert: "chunks 450 50000 ''hello world.'' = [''hello world.'']"
  by (rule chunks_one) simp_all

lemma hello_chunk_spacy: "chunks 10000 (length ''hello world.'') ''hello world.'' = [''hello world.'']"
  by (rule chunks_one) simp_all

lemma hello_sentence: "sent_step quiet_re [] ''hello world.'' = []"
  by code_simp

lemma hello_candidates: "doc_candidates (ner_const []) quiet_re ''hello world.'' = []"
  unfolding doc_candidates_def structure_entities_def spacy_articles_def
    hello_chunk_bert hello_chunk_spacy
  by (simp add: ner_const_def bert_articles_def hello_sentence)

text \<open>The claim as stated promises a synthetic article: on the one-page document
  "hello world.", where the entity model reports nothing, the only sentence is not upper
  case and no pattern matches, both functions return the empty list.\<close>

theorem articles_per_candidate_counterexample:
  "extract_articles (ner_const []) quiet_re [one_page ''hello world.''] = Inr [] \<and>
   extract_articles_from_text quiet_re ''hello world.'' = []"
proof -
  have a: "extract_articles (ner_const []) quiet_re [one_page ''hello world.''] = Inr []"
    by (simp add: extract_articles_single[OF one_page_full_text] hello_candidates
        sort_articles_def section_phase_nil)
  have b: "extract_articles_from_text quiet_re ''hello world.'' = []"
    by (simp add: extract_articles_from_text_def article_headers_def quiet_re_def
        ARTICLE_PATTERNS_def)
  show ?thesis using a b by simp
qed

lemma upper_chunk_bert: "chunks 450 50000 ''HELLO WORLD'' = [''HELLO WORLD'']"
  by (rule chunks_one) simp_all

lemma upper_chunk_spacy: "chunks 10000 (length ''HELLO WORLD'') ''HELLO WORLD'' = [''HELLO WORLD'']"
  by (rule chunks_one) simp_all

lemma upper_sentence:
  "sent_step upper_re [] ''HELLO WORLD'' = [mk_art ''1'' ''HELLO WORLD'']"
  by code_simp

lemma upper_candidates:
  "doc_candidates (ner_const []) upper_re ''HELLO WORLD'' = [mk_art ''1'' ''HELLO WORLD'']"
  unfolding doc_candidates_def structure_entities_def spacy_articles_def
    upper_chunk_bert upper_chunk_spacy
  by (simp add: ner_const_def bert_articles_def upper_sentence)

lemma upper_sorted: "sort_articles [mk_art ''1'' ''HELLO WORLD''] = [mk_art ''1'' ''HELLO WORLD'']"
  by code_simp

lemma upper_spans: "spans_found upper_re ''HELLO WORLD'' [mk_art ''1'' ''HELLO WORLD'']"
  by code_simp

lemma upper_shapes:
  "\<not> section_shape upper_re s \<and> \<not> bert_section_shape upper_re s"
  by (simp add: upper_re_def quiet_re_def)

lemma upper_article_text:
  "0 \<le> article_start_idx upper_re ''HELLO WORLD'' [mk_art ''1'' ''HELLO WORLD''] 0 \<and>
   article_text_of upper_re ''HELLO WORLD'' [mk_art ''1'' ''HELLO WORLD''] 0 = ''HELLO WORLD'' \<and>
   strip (drop (content_start upper_re ''HELLO WORLD'') ''HELLO WORLD'') = ''HELLO WORLD''"
  by code_simp

lemma upper_step:
  "section_step (ner_const []) upper_re ''HELLO WORLD'' [mk_art ''1'' ''HELLO WORLD''] 0 =
     Inr \<lparr>number = ''1'', numeric_id = ''1'', title = ''HELLO WORLD'', content = ''HELLO WORLD'',
          sections = []\<rparr>"
proof -
  have "section_step (ner_const []) upper_re ''HELLO WORLD'' [mk_art ''1'' ''HELLO WORLD''] 0 =
      Inr (([mk_art ''1'' ''HELLO WORLD''] ! 0)
             \<lparr>content := strip (drop (content_start upper_re ''HELLO WORLD'') ''HELLO WORLD''),
              sections := []\<rparr>)"
    using upper_shapes upper_article_text
    by (intro section_step_shapeless) (simp_all add: mk_art_def)
  then show ?thesis by (simp add: upper_article_text mk_art_def)
qed

lemma upper_run:
  "extract_articles (ner_const []) upper_re [one_page ''HELLO WORLD''] =
     Inr [\<lparr>number = ''1'', numeric_id = ''1'', title = ''HELLO WORLD'', content = ''HELLO WORLD'',
           sections = []\<rparr>]"
  unfolding extract_articles_single[OF one_page_full_text] upper_candidates upper_sorted
    section_phase_def
  by (simp add: upper_step)

lemma dup_chunk_bert: "chunks 450 50000 ''ARTICLE 1 - A'' = [''ARTICLE 1 - A'']"
  by (rule chunks_one) simp_all

lemma dup_entities: "is_article_entity dup_re (org ''ARTICLE 1 - A'')"
  by code_simp

lemma dup_articles:
  "bert_articles dup_re [''ARTICLE 1 - A'', ''ARTICLE 1 - A''] = [mk_art ''1'' ''A'', mk_art ''1'' ''A'']"
  by code_simp

lemma dup_candidates:
  "doc_candidates dup_nlp dup_re ''ARTICLE 1 - A'' = [mk_art ''1'' ''A'', mk_art ''1'' ''A'']"
  unfolding doc_candidates_def structure_entities_def dup_chunk_bert
  by (simp add: dup_nlp_def ner_const_def dup_entities word_org dup_articles)

lemma dup_sorted:
  "sort_articles [mk_art ''1'' ''A'', mk_art ''1'' ''A''] = [mk_art ''1'' ''A'', mk_art ''1'' ''A'']"
  by code_simp

lemma dup_spans:
  "\<not> spans_found dup_re ''ARTICLE 1 - A'' [mk_art ''1'' ''A'', mk_art ''1'' ''A'']"
  by code_simp

text \<open>
  Three runs on a one-page document. On "hello world." there is no candidate and the
  result is the empty list. On "HELLO WORLD", where the entity model reports nothing,
  the sentence pass makes the upper-case line the article 1, whose span is the page, and
  the result has this one article. On "ARTICLE 1 - A" with the header reported twice,
  the span of the first article ends where the second starts, at offset 0, and the call
  raises \<open>ValueError\<close>.
\<close>

theorem articles_per_candidate_witness:
  "full_text_of (one_page ''hello world.'') = Inr ''hello world.'' \<and>
   doc_candidates (ner_const []) quiet_re ''hello world.'' = [] \<and>
   extract_articles (ner_const []) quiet_re [one_page ''hello world.''] = Inr [] \<and>
   list_all (\<lambda>k. art_finditer quiet_re k ''hello world.'' = []) ARTICLE_PATTERNS \<and>
   extract_articles_from_text quiet_re ''hello world.'' = [] \<and>
   doc_candidates (ner_const []) upper_re ''HELLO WORLD'' = [mk_art ''1'' ''HELLO WORLD''] \<and>
   spans_found upper_re ''HELLO WORLD'' (sort_articles [mk_art ''1'' ''HELLO WORLD'']) \<and>
   \<not> isl (extract_articles (ner_const []) upper_re [one_page ''HELLO WORLD'']) \<and>
   map title (projr (extract_articles (ner_const []) upper_re [one_page ''HELLO WORLD''])) =
     [''HELLO WORLD''] \<and>
   extract_articles (ner_const []) upper_re [one_page ''HELLO WORLD''] =
     Inr [\<lparr>number = ''1'', numeric_id = ''1'', title = ''HELLO WORLD'', content = ''HELLO WORLD'',
           sections = []\<rparr>] \<and>
   doc_candidates dup_nlp dup_re ''ARTICLE 1 - A'' = [mk_art ''1'' ''A'', mk_art ''1'' ''A''] \<and>
   \<not> spans_found dup_re ''ARTICLE 1 - A'' (sort_articles [mk_art ''1'' ''A'', mk_art ''1'' ''A'']) \<and>
   extract_articles dup_nlp dup_re [one_page ''ARTICLE 1 - A''] = Inl ValueError"
proof -
  have f: "full_text_of (one_page s) = Inr s" for s by (rule one_page_full_text)
  have h: "extract_articles (ner_const []) quiet_re [one_page ''hello world.''] = Inr []"
    using articles_per_candidate [of quiet_re "''hello world.''" "one_page ''hello world.''"
        "ner_const []"] f hello_candidates
    by blast
  have q: "\<forall>k\<in>set ARTICLE_PATTERNS. art_finditer quiet_re k ''hello world.'' = []"
    by (simp add: quiet_re_def)
  have e: "extract_articles_from_text quiet_re ''hello world.'' = []"
    using articles_per_candidate [of quiet_re "''hello world.''" "one_page ''hello world.''"
        "ner_const []"] q
    by blast
  have us: "spans_found upper_re ''HELLO WORLD''
      (sort_articles (doc_candidates (ner_const []) upper_re ''HELLO WORLD''))"
    by (simp add: upper_candidates upper_sorted upper_spans)
  have "\<exists>r. extract_articles (ner_const []) upper_re [one_page ''HELLO WORLD''] = Inr r \<and>
      length r = length (doc_candidates (ner_const []) upper_re ''HELLO WORLD'') \<and>
      map title r = map title (sort_articles (doc_candidates (ner_const []) upper_re ''HELLO WORLD''))"
    using articles_per_candidate [of upper_re "''hello world.''" "one_page ''HELLO WORLD''"
        "ner_const []"] f us
    by blast
  then obtain r where r: "extract_articles (ner_const []) upper_re [one_page ''HELLO WORLD''] = Inr r"
    and t: "map title r = map title (sort_articles (doc_candidates (ner_const []) upper_re ''HELLO WORLD''))"
    by blast
  have t': "map title r = [''HELLO WORLD'']"
    using t unfolding upper_candidates upper_sorted by (simp add: mk_art_def)
  have ds: "\<not> spans_found dup_re ''ARTICLE 1 - A''
      (sort_articles (doc_candidates dup_nlp dup_re ''ARTICLE 1 - A''))"
    by (simp add: dup_candidates dup_sorted dup_spans)
  have d: "extract_articles dup_nlp dup_re [one_page ''ARTICLE 1 - A''] = Inl ValueError"
    using articles_per_candidate [of dup_re "''hello world.''" "one_page ''ARTICLE 1 - A''" dup_nlp]
      f ds
    by blast
  have u: "extract_articles (ner_const []) upper_re [one_page ''HELLO WORLD''] =
     Inr [\<lparr>number = ''1'', numeric_id = ''1'', title = ''HELLO WORLD'', content = ''HELLO WORLD'',
           sections = []\<rparr>]"
    by (rule upper_run)
  have t'': "map title (projr (extract_articles (ner_const []) upper_re [one_page ''HELLO WORLD''])) =
     [''HELLO WORLD'']"
    using t' by (simp add: r)
  have n: "\<not> isl (extract_articles (ner_const []) upper_re [one_page ''HELLO WORLD''])"
    by (simp add: r)
  show ?thesis
    using f h q e us ds d n t'' u
    by (simp only: list_all_iff hello_candidates upper_candidates upper_sorted dup_candidates
        dup_sorted simp_thms)
qed

section \<open>Deduplication of parties\<close>

text \<open>What holds of the two deduplications: the names of the records of
  \<open>extract_parties\<close> are dissimilar, and the filter of the metadata, given two candidates
  of which one is a shorter substring of the other, keeps the longer one in either
  order.\<close>

lemma similar_sym: "similar a b = similar b a"
  by (auto simp: similar_def)

lemma dissimilar_snoc:
  "dissimilar (xs @ [n]) \<longleftrightarrow> dissimilar xs \<and> list_all (\<lambda>x. \<not> similar x n) xs"
  by (induction xs) (auto simp: list_all_iff)

lemma party_step_invariant:
  assumes "map name (snd st) = fst st" and "dissimilar (fst st)"
  shows "map name (snd (party_step st raw)) = fst (party_step st raw) \<and>
         dissimilar (fst (party_step st raw))"
proof -
  have "\<not> list_ex (similar (normalize_name raw)) (fst st) \<Longrightarrow>
        list_all (\<lambda>x. \<not> similar x (normalize_name raw)) (fst st)"
    by (auto simp: list_all_iff list_ex_iff similar_sym)
  then show ?thesis
    using assms by (auto simp: party_step_def Let_def dissimilar_snoc)
qed

lemma party_fold_invariant:
  "map name (snd st) = fst st \<Longrightarrow> dissimilar (fst st) \<Longrightarrow>
   map name (snd (fold (\<lambda>n st. party_step st n) potential st)) =
     fst (fold (\<lambda>n st. party_step st n) potential st) \<and>
   dissimilar (fst (fold (\<lambda>n st. party_step st n) potential st))"
proof (induction potential arbitrary: st)
  case Nil
  then show ?case by simp
next
  case (Cons raw potential)
  show ?case
    using Cons.IH[of "party_step st raw"] party_step_invariant[OF Cons.prems]
    by simp
qed

lemma party_records_dissimilar: "dissimilar (map name (party_records potential))"
  using party_fold_invariant[of "([], [])" potential] by (simp add: party_records_def)

lemma filter_pair_longer:
  assumes "py_in a b" and "length a < length b"
    and "meta_looks_like_party a" and "meta_looks_like_party b"
    and "\<not> list_ex (\<lambda>term. py_in term (lower a)) META_STOPLIST"
    and "\<not> list_ex (\<lambda>term. py_in term (lower b)) META_STOPLIST"
  shows "filter_parties [a, b] = [b] \<and> filter_parties [b, a] = [b]"
  using assms by (auto simp: filter_parties_def filter_step_def)

lemma holdings_chunk_bert: "chunks 450 10000 holdings_text = [holdings_text]"
  by (rule chunks_one) (simp_all add: holdings_text_def)

lemma holdings_chunk_spacy: "chunks 10000 (length holdings_text) holdings_text = [holdings_text]"
  by (rule chunks_one) (simp_all add: holdings_text_def)

lemma holdings_words:
  "concat (map (\<lambda>chunk.
        filter (\<lambda>w. w \<noteq> [] \<and> length w > 2)
          (map (\<lambda>e. strip (word e))
             (filter (\<lambda>e. entity_group e = ''ORG'') (contractbert_ner holdings_nlp chunk))))
        [holdings_text]) = [''Acme Inc.'', ''Acme Inc. Holdings'']"
  by code_simp

lemma holdings_orgs:
  "fold (\<lambda>org pot. org_step holdings_text pot org) [''Acme Inc.'', ''Acme Inc. Holdings''] []
     = [''Acme Inc.'', ''Acme Inc. Holdings'']"
  by code_simp

lemma holdings_between:
  "between_step no_party_re holdings_text orgs pot = pot"
  by (simp add: between_step_def no_party_re_def)

lemma holdings_spacy: "spacy_chunk_step holdings_nlp pot chunk = pot"
  by (simp add: spacy_chunk_step_def holdings_nlp_def ner_const_def)

lemma holdings_potential:
  "potential_parties holdings_nlp no_party_re holdings_text = [''Acme Inc.'', ''Acme Inc. Holdings'']"
  unfolding potential_parties_def bert_words_def holdings_chunk_bert holdings_chunk_spacy
    holdings_words Let_def holdings_orgs holdings_between
  by (simp add: holdings_spacy)

lemma holdings_records:
  "party_records [''Acme Inc.'', ''Acme Inc. Holdings''] =
     [\<lparr>name = ''Acme Inc.'', party_type = ''Corporation'', signatories = []\<rparr>]"
  by code_simp

lemma no_signature_pages:
  "resolve_signatories (ner_const es) no_party_re [] ps = ps"
  by (simp add: resolve_signatories_def signature_entities_def chunks_nil
      proximity_signatories_def pattern_signatories_def ner_const_def no_party_re_def
      SIGNATURE_PATTERNS_def positional_signatories_def map_idI split_def)

lemma holdings_signatories: "resolve_signatories holdings_nlp no_party_re [] ps = ps"
  by (simp add: holdings_nlp_def no_signature_pages)

lemma merged_chunk: "chunks 450 10000 merged_text = [merged_text]"
  by (rule chunks_one) (simp_all add: merged_text_def)

lemma merged_entities:
  "fold (\<lambda>chunk acc. fold (\<lambda>e acc'. meta_entity_step ''ORG'' acc' e) (contractbert_ner merged_nlp chunk) acc)
          [merged_text] [] = [''Acme Inc.'', ''Beta Corp.'', ''Acme Inc. Beta Corp.'']"
  by code_simp

lemma merged_filter:
  "filter_parties [''Acme Inc.'', ''Beta Corp.'', ''Acme Inc. Beta Corp.''] =
     [''Beta Corp.'', ''Acme Inc. Beta Corp.'']"
  by code_simp

lemma merged_substring: "py_in ''Beta Corp.'' ''Acme Inc. Beta Corp.''"
  by code_simp

lemma holdings_substring: "py_in ''Acme Inc.'' ''Acme Inc. Holdings''"
  by code_simp

text \<open>
  Claim C2, evaluated. With the candidates Acme Inc. and Acme Inc. Holdings found in
  this order, \<open>extract_parties\<close> keeps Acme Inc., the shorter name. With the candidates
  Acme Inc., Beta Corp. and Acme Inc. Beta Corp., the party filter of the metadata keeps
  Beta Corp. and Acme Inc. Beta Corp., of which the first is a substring of the second.
\<close>

theorem party_dedup_evaluated:
  "extract_parties holdings_nlp no_party_re [one_page holdings_text] =
     Inr [\<lparr>name = ''Acme Inc.'', party_type = ''Corporation'', signatories = []\<rparr>] \<and>
   py_in ''Acme Inc.'' ''Acme Inc. Holdings'' \<and>
   metadata_parties merged_nlp merged_text = [''Beta Corp.'', ''Acme Inc. Beta Corp.''] \<and>
   py_in ''Beta Corp.'' ''Acme Inc. Beta Corp.''"
proof -
  have a: "extract_parties holdings_nlp no_party_re [one_page holdings_text] =
     Inr [\<lparr>name = ''Acme Inc.'', party_type = ''Corporation'', signatories = []\<rparr>]"
    by (simp add: extract_parties_def one_page_def first_pages_def last_pages_def join_pages_def
        holdings_potential holdings_records holdings_signatories)
  have b: "metadata_parties merged_nlp merged_text = [''Beta Corp.'', ''Acme Inc. Beta Corp.'']"
    unfolding metadata_parties_def meta_entities_def merged_chunk merged_entities
    by (rule merged_filter)
  show ?thesis using a b merged_substring holdings_substring by simp
qed

section \<open>Signatories\<close>

text \<open>What holds of the signatory paths: the proximity path and the positional path keep
  the signatory lists free of duplicates, and the positional path changes nothing unless
  every party has no signatory.\<close>

lemma add_signatory_distinct:
  "distinct (signatories p) \<Longrightarrow> distinct (signatories (add_signatory sg p))"
  by (simp add: add_signatory_def)

lemma add_where_distinct:
  "list_all (\<lambda>p. distinct (signatories p)) ps \<Longrightarrow>
   list_all (\<lambda>p. distinct (signatories p)) (map (\<lambda>p. if c p then add_signatory sg p else p) ps)"
  by (induction ps) (simp_all add: add_signatory_distinct)

lemma proximity_step_distinct:
  assumes "list_all (\<lambda>p. distinct (signatories p)) ps"
  shows "list_all (\<lambda>p. distinct (signatories p)) (proximity_step org_spans ps person)"
proof (cases "fold (\<lambda>org st. closest_step person st org) org_spans (None, None)")
  case (Pair closest_org min_distance)
  show ?thesis
  proof (cases closest_org)
    case None
    then show ?thesis using assms Pair by (simp add: proximity_step_def)
  next
    case (Some org)
    show ?thesis
    proof (cases min_distance)
      case None
      then show ?thesis using assms Pair Some by (simp add: proximity_step_def)
    next
      case (Some m)
      then show ?thesis
        using assms Pair \<open>closest_org = Some org\<close> add_where_distinct[OF assms]
        by (simp add: proximity_step_def)
    qed
  qed
qed

lemma proximity_signatories_distinct:
  "list_all (\<lambda>p. distinct (signatories p)) ps \<Longrightarrow>
   list_all (\<lambda>p. distinct (signatories p)) (proximity_signatories N last_pages_text ps)"
proof -
  have "list_all (\<lambda>p. distinct (signatories p)) ps \<Longrightarrow>
        list_all (\<lambda>p. distinct (signatories p))
          (fold (\<lambda>person ps'. proximity_step orgs ps' person) persons ps)" for orgs persons
    by (induction persons arbitrary: ps) (simp_all add: proximity_step_distinct)
  then show "list_all (\<lambda>p. distinct (signatories p)) ps \<Longrightarrow>
   list_all (\<lambda>p. distinct (signatories p)) (proximity_signatories N last_pages_text ps)"
    by (simp add: proximity_signatories_def Let_def)
qed

lemma positional_only_when_empty:
  "\<not> list_all (\<lambda>p. length (signatories p) = 0) ps \<Longrightarrow> positional_signatories people ps = ps"
  by (simp add: positional_signatories_def)

lemma positional_distinct:
  "list_all (\<lambda>p. distinct (signatories p)) ps \<Longrightarrow>
   list_all (\<lambda>p. distinct (signatories p)) (positional_signatories people ps)"
  by (auto simp: positional_signatories_def list_all_iff in_set_enumerate_eq)

lemma extract_parties_pages:
  "pages d = Some ps \<Longrightarrow> join_pages (first_pages ps) = Inr ft \<Longrightarrow>
   join_pages (last_pages ps) = Inr lt \<Longrightarrow>
   extract_parties N P [d] = Inr (resolve_signatories N P lt (party_records (potential_parties N P ft)))"
  by (simp add: extract_parties_def)

lemma signed_first: "join_pages (first_pages signed_pages) = Inr signed_text"
  by (simp add: join_pages_def first_pages_def signed_pages_def signed_text_def)

lemma signed_last: "join_pages (last_pages signed_pages) = Inr sig_pages_text"
  by (simp add: join_pages_def last_pages_def signed_pages_def sig_pages_text_def)

lemma signed_chunk_bert: "chunks 450 10000 signed_text = [signed_text]"
  by (rule chunks_one) (simp_all add: signed_text_def sig_block_def)

lemma signed_chunk_spacy: "chunks 10000 (length signed_text) signed_text = [signed_text]"
  by (rule chunks_one) (simp_all add: signed_text_def sig_block_def)

lemma signed_words:
  "concat (map (\<lambda>chunk.
        filter (\<lambda>w. w \<noteq> [] \<and> length w > 2)
          (map (\<lambda>e. strip (word e))
             (filter (\<lambda>e. entity_group e = ''ORG'') (contractbert_ner signed_nlp chunk))))
        [signed_text]) = [''Acme Corporation'']"
  by code_simp

lemma signed_orgs:
  "fold (\<lambda>org pot. org_step signed_text pot org) [''Acme Corporation''] [] = [''Acme Corporation'']"
  by code_simp

lemma signed_between: "between_step signed_re signed_text orgs pot = pot"
  by (simp add: between_step_def signed_re_def)

lemma signed_spacy: "spacy_chunk_step signed_nlp pot chunk = pot"
  by (simp add: spacy_chunk_step_def signed_nlp_def ner_const_def)

lemma signed_potential:
  "potential_parties signed_nlp signed_re signed_text = [''Acme Corporation'']"
  unfolding potential_parties_def bert_words_def signed_chunk_bert signed_chunk_spacy
    signed_words Let_def signed_orgs signed_between
  by (simp add: signed_spacy)

lemma signed_records:
  "party_records [''Acme Corporation''] =
     [\<lparr>name = ''Acme Corporation'', party_type = ''Corporation'', signatories = []\<rparr>]"
  by code_simp

lemma signed_matches:
  "sig_finditer signed_re 0 sig_pages_text =
     [[''Acme Corporation '', ''John Smith '', ''CEO''], [''Acme Corporation '', ''John Smith '', ''CEO'']] \<and>
   sig_finditer signed_re (Suc 0) sig_pages_text = []"
  by (simp add: signed_re_def)

lemma signed_match_step:
  "sig_match_step [\<lparr>name = ''Acme Corporation'', party_type = ''Corporation'', signatories = sgs\<rparr>]
      [''Acme Corporation '', ''John Smith '', ''CEO''] =
   [\<lparr>name = ''Acme Corporation'', party_type = ''Corporation'', signatories = sgs @ [john_ceo]\<rparr>]"
proof -
  have a: "strip ''Acme Corporation '' = ''Acme Corporation''" by code_simp
  have b: "strip ''John Smith '' = ''John Smith''" by code_simp
  have c: "strip ''CEO'' = ''CEO''" by code_simp
  have d: "py_in ''Acme Corporation'' ''Acme Corporation''" by code_simp
  show ?thesis by (simp add: sig_match_step_def a b c d john_ceo_def)
qed

lemma signed_patterns:
  "pattern_signatories signed_re sig_pages_text
     [\<lparr>name = ''Acme Corporation'', party_type = ''Corporation'', signatories = []\<rparr>] =
   [\<lparr>name = ''Acme Corporation'', party_type = ''Corporation'', signatories = [john_ceo, john_ceo]\<rparr>]"
  by (simp add: pattern_signatories_def SIGNATURE_PATTERNS_def signed_matches signed_match_step)

lemma signed_proximity: "proximity_signatories signed_nlp last_text ps = ps"
  by (simp add: proximity_signatories_def signed_nlp_def ner_const_def)

lemma signed_positional:
  "positional_signatories people
     [\<lparr>name = ''Acme Corporation'', party_type = ''Corporation'', signatories = [john_ceo, john_ceo]\<rparr>] =
   [\<lparr>name = ''Acme Corporation'', party_type = ''Corporation'', signatories = [john_ceo, john_ceo]\<rparr>]"
  by (simp add: positional_signatories_def)

text \<open>
  Claim C9, evaluated. Two matches of a signature pattern with the same company, person
  and title give the party the same signatory twice.
\<close>

theorem signatories_duplicated:
  "extract_parties signed_nlp signed_re [signed_doc] =
     Inr [\<lparr>name = ''Acme Corporation'', party_type = ''Corporation'',
           signatories = [john_ceo, john_ceo]\<rparr>] \<and>
   \<not> distinct [john_ceo, john_ceo]"
proof -
  have p: "pages signed_doc = Some signed_pages" by (simp add: signed_doc_def)
  have "extract_parties signed_nlp signed_re [signed_doc] =
      Inr (resolve_signatories signed_nlp signed_re sig_pages_text
             (party_records (potential_parties signed_nlp signed_re signed_text)))"
    using p signed_first signed_last by (rule extract_parties_pages)
  then show ?thesis
    by (simp add: signed_potential signed_records resolve_signatories_def signed_patterns
        signed_proximity signed_positional)
qed

end
